theory Spec2Isabelle
  imports Complex_Main "HOL-Library.Log_Nat"
begin

section \<open>privacyidea/lib/crypto.py: data model\<close>

text \<open>
  The module is Python 2 era code (it imports \<open>six\<close>, tests \<open>PY2\<close>, applies \<open>ord\<close> to
  an element of a byte string and concatenates \<open>chr(n)\<close> to data). A byte string is the
  Python 2 \<open>str\<close>: a sequence of 8-bit characters, here \<open>string\<close>. \<open>ord\<close> is
  \<open>of_char\<close>, and \<open>chr\<close> is \<open>py_chr\<close> below.

  Exceptions are values of the type \<open>error\<close>; a function that can raise returns
  \<open>error + 'a\<close> with \<open>Inl\<close> the exception.
\<close>

datatype error =
    HSMException string
  | ValueError
  | TypeError
  | IndexError
  | AttributeError
  | ZeroDivisionError
  | OtherError

text \<open>\<open>chr(n)\<close>: a one character string, ValueError outside \<open>range(256)\<close>.\<close>

definition py_chr :: "int \<Rightarrow> error + char" where
  "py_chr n = (if 0 \<le> n \<and> n < 256 then Inr (char_of (nat n)) else Inl ValueError)"

text \<open>\<open>s[-1]\<close>: the last element, IndexError on the empty string.\<close>

definition py_last :: "'a list \<Rightarrow> error + 'a" where
  "py_last s = (case s of [] \<Rightarrow> Inl IndexError | _ \<Rightarrow> Inr (last s))"

text \<open>\<open>s[0]\<close>: the first element, IndexError on the empty string.\<close>

definition py_first :: "'a list \<Rightarrow> error + 'a" where
  "py_first s = (case s of [] \<Rightarrow> Inl IndexError | x # _ \<Rightarrow> Inr x)"

text \<open>
  \<open>s[0:stop]\<close> for an integer \<open>stop\<close>: a negative \<open>stop\<close> counts from the end and is
  clamped at 0, a non-negative one is clamped at \<open>len(s)\<close>. Note that \<open>s[0:-0]\<close> is
  \<open>s[0:0]\<close>, the empty string.
\<close>

definition py_slice_to :: "'a list \<Rightarrow> int \<Rightarrow> 'a list" where
  "py_slice_to s stop =
     (if stop < 0 then take (nat (int (length s) + stop)) s else take (nat stop) s)"

section \<open>The AES primitive of the Crypto library\<close>

text \<open>
  \<open>Crypto.Cipher.AES\<close> is a third-party library: it is a parameter of the model.
  \<open>aes_new key mode iv\<close> is \<open>AES.new(key, mode, iv)\<close>, which returns a cipher object
  (of an abstract type \<open>'c\<close>) or raises; \<open>aes_obj_encrypt\<close> and \<open>aes_obj_decrypt\<close>
  are the object's \<open>encrypt\<close> and \<open>decrypt\<close> methods. \<open>block_size\<close> is 16.
\<close>

datatype aes_mode = MODE_ECB | MODE_CBC

record 'c aes_lib =
  aes_new :: "string \<Rightarrow> aes_mode \<Rightarrow> string \<Rightarrow> error + 'c"
  aes_obj_encrypt :: "'c \<Rightarrow> string \<Rightarrow> error + string"
  aes_obj_decrypt :: "'c \<Rightarrow> string \<Rightarrow> error + string"

definition block_size :: nat where
  "block_size = 16"

text \<open>
  What the library documents for CBC: with a key of 16, 24 or 32 bytes, an IV of 16 bytes
  and data whose length is a multiple of 16, \<open>encrypt\<close> returns a ciphertext of the same
  length that \<open>decrypt\<close> (on a fresh object with the same key and IV) maps back.
\<close>

definition aes_cbc_contract :: "'c aes_lib \<Rightarrow> bool" where
  "aes_cbc_contract L \<longleftrightarrow>
     (\<forall>key iv d. length key \<in> {16, 24, 32} \<and> length iv = 16 \<and> length d mod 16 = 0 \<longrightarrow>
        (\<exists>a c. aes_new L key MODE_CBC iv = Inr a \<and> aes_obj_encrypt L a d = Inr c \<and>
               length c = length d \<and> aes_obj_decrypt L a c = Inr d))"

section \<open>AES envelope helpers\<close>

text \<open>\<open>aes_decrypt(key, iv, cipherdata, mode=AES.MODE_CBC)\<close>, lines 437-455.\<close>

definition aes_decrypt :: "'c aes_lib \<Rightarrow> string \<Rightarrow> string \<Rightarrow> string \<Rightarrow> aes_mode \<Rightarrow> error + string" where
  "aes_decrypt L key iv cipherdata mode =
     (case aes_new L key mode iv of
        Inl e \<Rightarrow> Inl e
      | Inr aes \<Rightarrow>
          (case aes_obj_decrypt L aes cipherdata of
             Inl e \<Rightarrow> Inl e
           | Inr output \<Rightarrow>
               (case py_last output of
                  Inl e \<Rightarrow> Inl e
                | Inr ch \<Rightarrow>
                    (let padding = int (of_char ch) in
                     Inr (py_slice_to output (- padding))))))"

text \<open>\<open>aes_encrypt(key, iv, data, mode=AES.MODE_CBC)\<close>, lines 458-476.\<close>

definition aes_encrypt :: "'c aes_lib \<Rightarrow> string \<Rightarrow> string \<Rightarrow> string \<Rightarrow> aes_mode \<Rightarrow> error + string" where
  "aes_encrypt L key iv data mode =
     (case aes_new L key mode iv of
        Inl e \<Rightarrow> Inl e
      | Inr aes \<Rightarrow>
          (let num_pad = block_size - (length data mod block_size) in
           case py_chr (int num_pad) of
             Inl e \<Rightarrow> Inl e
           | Inr ch \<Rightarrow> aes_obj_encrypt L aes (data @ replicate num_pad ch)))"

text \<open>
  A stand-in for the library with its interface and its length checks and the identity
  as the block transformation. It serves to run the helpers on concrete inputs.
\<close>

definition null_aes :: "(string \<times> aes_mode \<times> string) aes_lib" where
  "null_aes = \<lparr>
     aes_new = (\<lambda>key mode iv.
        if length key \<notin> {16, 24, 32} then Inl ValueError
        else if mode = MODE_CBC \<and> length iv \<noteq> 16 then Inl ValueError
        else Inr (key, mode, iv)),
     aes_obj_encrypt = (\<lambda>a d. if length d mod 16 = 0 then Inr d else Inl ValueError),
     aes_obj_decrypt = (\<lambda>a d. if length d mod 16 = 0 then Inr d else Inl ValueError) \<rparr>"

definition key16 :: string where
  "key16 = replicate 16 (CHR ''k'')"

definition iv16 :: string where
  "iv16 = replicate 16 (CHR ''i'')"

text \<open>
  The raw decryption that \<open>aes_decrypt\<close> starts from:
  \<open>AES.new(key, mode, iv).decrypt(cipherdata)\<close>. It names the intermediate value
  \<open>output\<close> of lines 450-451 in the statements below.
\<close>

definition raw_decrypt :: "'c aes_lib \<Rightarrow> string \<Rightarrow> string \<Rightarrow> string \<Rightarrow> aes_mode \<Rightarrow> error + string" where
  "raw_decrypt L key iv cipherdata mode =
     (case aes_new L key mode iv of
        Inl e \<Rightarrow> Inl e
      | Inr aes \<Rightarrow> aes_obj_decrypt L aes cipherdata)"

text \<open>
  The padding check that the specification asks for, in the specification's words: the pad
  byte is in \<open>[1, block_size]\<close> and all padding bytes equal the pad byte. The source has
  no such check; this predicate only serves to state what \<open>aes_decrypt\<close> does on
  plaintexts that fail it.
\<close>

definition pkcs7_padding_ok :: "string \<Rightarrow> bool" where
  "pkcs7_padding_ok output =
     (case output of
        [] \<Rightarrow> False
      | _ \<Rightarrow>
          (let b = (of_char (last output) :: nat) in
           1 \<le> b \<and> b \<le> block_size \<and> b \<le> length output \<and>
           list_all (\<lambda>ch. ch = last output) (drop (length output - b) output)))"

text \<open>Two ciphertexts for the stand-in library, of one block each.\<close>

definition cipher_bad_padding :: string where
  "cipher_bad_padding = ''0123456789abcde'' @ [CHR 0x05]"

definition cipher_zero_pad :: string where
  "cipher_zero_pad = ''0123456789abcde'' @ [CHR 0x00]"

section \<open>The security module and its handle\<close>

text \<open>
  The security module classes live in \<open>lib/security\<close>, outside this file: the module
  object is a value of an abstract type \<open>'m\<close>, and what \<open>crypto.py\<close> calls on it is a
  parameter. \<open>m_is_ready\<close> reads the attribute \<open>is_ready\<close>; \<open>m_setup_module\<close> is
  \<open>setup_module(params)\<close>, which returns a flag or raises, and mutates the object;
  \<open>m_random\<close>, \<open>m_encrypt\<close> and \<open>m_decrypt\<close> are \<open>random(n)\<close>,
  \<open>encrypt(data, iv, id)\<close> and \<open>decrypt(data, iv, id)\<close>. \<open>new_hsm\<close> is the outcome of
  \<open>create_hsm_object(get_app_config())\<close>, which instantiates the configured class.
\<close>

record 'm hsm_env =
  m_is_ready :: "'m \<Rightarrow> bool"
  m_setup_module :: "'m \<Rightarrow> (string \<times> string) list \<Rightarrow> (error + bool) \<times> 'm"
  m_random :: "'m \<Rightarrow> int \<Rightarrow> error + string"
  m_encrypt :: "'m \<Rightarrow> string \<Rightarrow> string \<Rightarrow> int \<Rightarrow> error + string"
  m_decrypt :: "'m \<Rightarrow> string \<Rightarrow> string \<Rightarrow> int \<Rightarrow> error + string"
  new_hsm :: "error + 'm"

text \<open>
  The entry \<open>"pi_hsm"\<close> of the app-local store: absent, present but not a dict, or the
  dict \<open>{"obj": hsm}\<close>, where \<open>hsm\<close> may be \<open>None\<close>.
\<close>

datatype 'm app_store = NoEntry | NotADict | HsmConfig "'m option"

text \<open>\<open>init_hsm()\<close>, lines 290-306. The result is paired with the store afterwards.\<close>

definition init_hsm :: "'m hsm_env \<Rightarrow> 'm app_store \<Rightarrow> (error + 'm option) \<times> 'm app_store" where
  "init_hsm E app_store =
     (case app_store of
        HsmConfig obj \<Rightarrow> (Inr obj, app_store)
      | _ \<Rightarrow>
          (case new_hsm E of
             Inl e \<Rightarrow> (Inl e, app_store)
           | Inr obj \<Rightarrow> (Inr (Some obj), HsmConfig (Some obj))))"

text \<open>\<open>get_hsm(require_ready=True)\<close>, lines 309-322.\<close>

definition get_hsm :: "'m hsm_env \<Rightarrow> bool \<Rightarrow> 'm app_store \<Rightarrow> (error + 'm) \<times> 'm app_store" where
  "get_hsm E require_ready app_store =
     (case init_hsm E app_store of
        (Inl e, st) \<Rightarrow> (Inl e, st)
      | (Inr None, st) \<Rightarrow> (Inl (HSMException ''hsm is None!''), st)
      | (Inr (Some hsm), st) \<Rightarrow>
          (if require_ready \<and> \<not> m_is_ready E hsm
           then (Inl (HSMException ''hsm not ready!''), st)
           else (Inr hsm, st)))"

text \<open>
  \<open>set_hsm_password(password)\<close>, lines 325-334. \<open>hsm.is_ready\<close> on \<open>None\<close> is an
  AttributeError. The module object in the store is the one that \<open>setup_module\<close>
  mutates.
\<close>

definition set_hsm_password :: "'m hsm_env \<Rightarrow> string \<Rightarrow> 'm app_store \<Rightarrow> (error + bool) \<times> 'm app_store" where
  "set_hsm_password E password app_store =
     (case init_hsm E app_store of
        (Inl e, st) \<Rightarrow> (Inl e, st)
      | (Inr None, st) \<Rightarrow> (Inl AttributeError, st)
      | (Inr (Some hsm), st) \<Rightarrow>
          (if m_is_ready E hsm
           then (Inl (HSMException ''HSM already set up.''), st)
           else (case m_setup_module E hsm [(''password'', password)] of
                   (r, hsm') \<Rightarrow> (r, HsmConfig (Some hsm')))))"

text \<open>\<open>encrypt(data, iv, id=0)\<close>, lines 397-414.\<close>

definition encrypt :: "'m hsm_env \<Rightarrow> string \<Rightarrow> string \<Rightarrow> int \<Rightarrow> 'm app_store \<Rightarrow> (error + string) \<times> 'm app_store" where
  "encrypt E data iv ident app_store =
     (case get_hsm E True app_store of
        (Inl e, st) \<Rightarrow> (Inl e, st)
      | (Inr hsm, st) \<Rightarrow> (m_encrypt E hsm data iv ident, st))"

text \<open>\<open>decrypt(input, iv, id=0)\<close>, lines 417-433.\<close>

definition decrypt :: "'m hsm_env \<Rightarrow> string \<Rightarrow> string \<Rightarrow> int \<Rightarrow> 'm app_store \<Rightarrow> (error + string) \<times> 'm app_store" where
  "decrypt E input iv ident app_store =
     (case get_hsm E True app_store of
        (Inl e, st) \<Rightarrow> (Inl e, st)
      | (Inr hsm, st) \<Rightarrow> (m_decrypt E hsm input iv ident, st))"

section \<open>binascii\<close>

text \<open>
  \<open>binascii.hexlify\<close>: two lower-case hexadecimal digits per byte. \<open>binascii.unhexlify\<close>
  accepts digits of either case and raises TypeError (Python 2) on an odd length or on a
  character that is no hexadecimal digit.
\<close>

definition hex_digit :: "nat \<Rightarrow> char" where
  "hex_digit n = (if n < 10 then char_of (48 + n) else char_of (87 + n))"

definition hex_value :: "char \<Rightarrow> nat option" where
  "hex_value c =
     (let n = (of_char c :: nat) in
      if 48 \<le> n \<and> n \<le> 57 then Some (n - 48)
      else if 97 \<le> n \<and> n \<le> 102 then Some (n - 87)
      else if 65 \<le> n \<and> n \<le> 70 then Some (n - 55)
      else None)"

fun hexlify :: "string \<Rightarrow> string" where
  "hexlify [] = []"
| "hexlify (c # cs) =
     hex_digit (of_char c div 16) # hex_digit (of_char c mod 16) # hexlify cs"

fun unhexlify :: "string \<Rightarrow> error + string" where
  "unhexlify [] = Inr []"
| "unhexlify [c] = Inl TypeError"
| "unhexlify (a # b # cs) =
     (case (hex_value a, hex_value b) of
        (Some h, Some l) \<Rightarrow>
          (case unhexlify cs of
             Inl e \<Rightarrow> Inl e
           | Inr r \<Rightarrow> Inr (char_of (16 * h + l) # r))
      | _ \<Rightarrow> Inl TypeError)"

section \<open>SecretObj\<close>

text \<open>
  The attribute \<open>bkey\<close> of a SecretObj is \<open>None\<close>, or refers to a byte buffer, or has
  been removed by \<open>del self.bkey\<close> (reading it is then an AttributeError). Buffers live in
  a heap, a list indexed by address, so that \<open>zerome\<close>, which overwrites a buffer in
  place, is visible. \<open>SecretObj_init\<close> is \<open>__init__(val, iv, preserve=True)\<close>, lines
  105-110, with \<open>None\<close> for an omitted \<open>preserve\<close>.
\<close>

datatype bkey_attr = BkeyNone | BkeyRef nat | BkeyDeleted

record secret_obj =
  so_val :: string
  so_iv :: string
  so_bkey :: bkey_attr
  so_preserve :: bool

record 'm world =
  w_store :: "'m app_store"
  w_heap :: "string list"

definition SecretObj_init :: "string \<Rightarrow> string \<Rightarrow> bool option \<Rightarrow> secret_obj" where
  "SecretObj_init v i preserve_arg =
     \<lparr> so_val = v, so_iv = i, so_bkey = BkeyNone,
       so_preserve = (case preserve_arg of None \<Rightarrow> True | Some p \<Rightarrow> p) \<rparr>"

text \<open>\<open>zerome(bufferObject)\<close>, lines 678-694: \<open>memset\<close> of the buffer with 0.\<close>

definition zerome :: "nat \<Rightarrow> string list \<Rightarrow> string list" where
  "zerome a hp = hp[a := replicate (length (hp ! a)) (CHR 0x00)]"

text \<open>
  \<open>SecretObj.getKey()\<close> and \<open>SecretObj.getPin()\<close>, lines 112-118: the stored value is
  handed to \<open>decrypt\<close> as it is.
\<close>

definition getKey :: "'m hsm_env \<Rightarrow> secret_obj \<Rightarrow> 'm app_store \<Rightarrow> (error + string) \<times> 'm app_store" where
  "getKey E self app_store = decrypt E (so_val self) (so_iv self) 0 app_store"

definition getPin :: "'m hsm_env \<Rightarrow> secret_obj \<Rightarrow> 'm app_store \<Rightarrow> (error + string) \<times> 'm app_store" where
  "getPin E self app_store = decrypt E (so_val self) (so_iv self) 0 app_store"

text \<open>
  \<open>SecretObj.compare(key)\<close>, lines 120-124. \<open>encrypt\<close> is called with its default
  \<open>id=0\<close>.
\<close>

definition compare :: "'m hsm_env \<Rightarrow> secret_obj \<Rightarrow> string \<Rightarrow> 'm app_store \<Rightarrow> (error + bool) \<times> 'm app_store" where
  "compare E self key app_store =
     (case unhexlify key of
        Inl e \<Rightarrow> (Inl e, app_store)
      | Inr bhOtpKey \<Rightarrow>
          (case encrypt E bhOtpKey (so_iv self) 0 app_store of
             (Inl e, st) \<Rightarrow> (Inl e, st)
           | (Inr enc_otp_key, st) \<Rightarrow>
               (let otpKeyEnc = hexlify enc_otp_key in
                (Inr (otpKeyEnc = so_val self), st))))"

text \<open>
  \<open>SecretObj._setupKey_()\<close>, lines 157-162. The decrypted hex string \<open>akey\<close> and the
  key \<open>bkey\<close> are two buffers; \<open>akey\<close> is zeroed after \<open>bkey\<close> has been made from it.
\<close>

definition SecretObj_setupKey :: "'m hsm_env \<Rightarrow> secret_obj \<Rightarrow> 'm world \<Rightarrow> (error + unit) \<times> secret_obj \<times> 'm world" where
  "SecretObj_setupKey E self w =
     (case so_bkey self of
        BkeyDeleted \<Rightarrow> (Inl AttributeError, self, w)
      | BkeyRef a \<Rightarrow> (Inr (), self, w)
      | BkeyNone \<Rightarrow>
          (case decrypt E (so_val self) (so_iv self) 0 (w_store w) of
             (Inl e, st) \<Rightarrow> (Inl e, self, w\<lparr>w_store := st\<rparr>)
           | (Inr akey, st) \<Rightarrow>
               (let a = length (w_heap w);
                    hp = w_heap w @ [akey]
                in case unhexlify akey of
                     Inl e \<Rightarrow> (Inl e, self, \<lparr>w_store = st, w_heap = hp\<rparr>)
                   | Inr b \<Rightarrow>
                       (Inr (), self\<lparr>so_bkey := BkeyRef (Suc a)\<rparr>,
                        \<lparr>w_store = st, w_heap = zerome a (hp @ [b])\<rparr>))))"

text \<open>\<open>SecretObj._clearKey_(preserve=False)\<close>, lines 164-167.\<close>

definition SecretObj_clearKey :: "secret_obj \<Rightarrow> bool \<Rightarrow> 'm world \<Rightarrow> (error + unit) \<times> secret_obj \<times> 'm world" where
  "SecretObj_clearKey self preserve_arg w =
     (if preserve_arg then (Inr (), self, w)
      else (case so_bkey self of
              BkeyDeleted \<Rightarrow> (Inl AttributeError, self, w)
            | BkeyNone \<Rightarrow> (Inr (), self, w)
            | BkeyRef a \<Rightarrow>
                (Inr (), self\<lparr>so_bkey := BkeyDeleted\<rparr>, w\<lparr>w_heap := zerome a (w_heap w)\<rparr>)))"

text \<open>
  \<open>SecretObj.__del__()\<close>, lines 171-172: \<open>_clearKey_()\<close> with the default
  \<open>preserve=False\<close>; an exception raised in a finalizer is ignored.
\<close>

definition SecretObj_del :: "secret_obj \<Rightarrow> 'm world \<Rightarrow> secret_obj \<times> 'm world" where
  "SecretObj_del self w = snd (SecretObj_clearKey self False w)"

text \<open>
  \<open>SecretObj.hmac_digest(data_input, hash_algo)\<close>, lines 126-135. \<open>hmac_new\<close> stands for
  \<open>hmac.new(key, msg, digestmod).digest()\<close> of the standard library, \<open>pver_gt_26\<close> for
  the test \<open>pver > 2.6\<close> on the interpreter's version; \<open>py_str\<close> is \<open>str\<close> on a
  byte string, which returns it. The line that computes \<open>_hex_kex\<close> has no effect.
\<close>

definition py_str :: "string \<Rightarrow> string" where
  "py_str x = x"

definition SecretObj_hmac_digest :: "'m hsm_env \<Rightarrow> (string \<Rightarrow> string \<Rightarrow> 'h \<Rightarrow> error + string) \<Rightarrow> bool \<Rightarrow> secret_obj \<Rightarrow> string \<Rightarrow> 'h \<Rightarrow> 'm world \<Rightarrow> (error + string) \<times> secret_obj \<times> 'm world" where
  "SecretObj_hmac_digest E hmac_new pver_gt_26 self data_input hash_algo w =
     (case SecretObj_setupKey E self w of
        (Inl e, self1, w1) \<Rightarrow> (Inl e, self1, w1)
      | (Inr u, self1, w1) \<Rightarrow>
          (case so_bkey self1 of
             BkeyRef a \<Rightarrow>
               (case (if pver_gt_26 then hmac_new (w_heap w1 ! a) data_input hash_algo
                      else hmac_new (w_heap w1 ! a) (py_str data_input) hash_algo) of
                  Inl e \<Rightarrow> (Inl e, self1, w1)
                | Inr h \<Rightarrow>
                    (case SecretObj_clearKey self1 (so_preserve self1) w1 of
                       (Inl e, self2, w2) \<Rightarrow> (Inl e, self2, w2)
                     | (Inr u, self2, w2) \<Rightarrow> (Inr h, self2, w2)))
           | _ \<Rightarrow> (Inl AttributeError, self1, w1)))"

text \<open>\<open>SecretObj.aes_decrypt(data_input)\<close>, lines 137-148: AES in ECB mode, without IV.\<close>

definition SecretObj_aes_decrypt :: "'m hsm_env \<Rightarrow> 'c aes_lib \<Rightarrow> secret_obj \<Rightarrow> string \<Rightarrow> 'm world \<Rightarrow> (error + string) \<times> secret_obj \<times> 'm world" where
  "SecretObj_aes_decrypt E L self data_input w =
     (case SecretObj_setupKey E self w of
        (Inl e, self1, w1) \<Rightarrow> (Inl e, self1, w1)
      | (Inr u, self1, w1) \<Rightarrow>
          (case so_bkey self1 of
             BkeyRef a \<Rightarrow>
               (case aes_new L (w_heap w1 ! a) MODE_ECB [] of
                  Inl e \<Rightarrow> (Inl e, self1, w1)
                | Inr aes \<Rightarrow>
                    (case aes_obj_decrypt L aes data_input of
                       Inl e \<Rightarrow> (Inl e, self1, w1)
                     | Inr msg_bin \<Rightarrow>
                         (case SecretObj_clearKey self1 (so_preserve self1) w1 of
                            (Inl e, self2, w2) \<Rightarrow> (Inl e, self2, w2)
                          | (Inr u, self2, w2) \<Rightarrow> (Inr msg_bin, self2, w2))))
           | _ \<Rightarrow> (Inl AttributeError, self1, w1)))"

text \<open>
  A stand-in security module for running the functions on concrete inputs: its state is
  the readiness flag; \<open>setup_module\<close> sets the flag and returns it; \<open>encrypt\<close> appends
  the IV to the data and \<open>decrypt\<close> removes it again; \<open>random(n)\<close> returns \<open>n\<close> bytes
  \<open>0xff\<close>. Every operation but \<open>setup_module\<close> fails on a module that is not ready.
\<close>

definition not_ready :: error where
  "not_ready = HSMException ''module not ready''"

definition toy_hsm :: "bool hsm_env" where
  "toy_hsm = \<lparr>
     m_is_ready = (\<lambda>m. m),
     m_setup_module = (\<lambda>m params. (Inr True, True)),
     m_random = (\<lambda>m n. if m then Inr (replicate (nat n) (CHR 0xff)) else Inl not_ready),
     m_encrypt = (\<lambda>m data iv ident. if m then Inr (data @ iv) else Inl not_ready),
     m_decrypt = (\<lambda>m data iv ident.
        if m then Inr (take (length data - length iv) data) else Inl not_ready),
     new_hsm = Inr False \<rparr>"

text \<open>A stand-in for \<open>hmac.new(key, msg, digestmod).digest()\<close>.\<close>

definition toy_hmac :: "string \<Rightarrow> string \<Rightarrow> unit \<Rightarrow> error + string" where
  "toy_hmac k d algo = Inr (k @ d)"

section \<open>Python numbers\<close>

text \<open>
  A Python \<open>float\<close> is an IEEE 754 double: a rational with a 53-bit significand. \<open>rnd\<close>
  rounds a rational to the nearest such number, ties to even; \<open>binexp y\<close> is the
  exponent \<open>e\<close> with \<open>2^e \<le> y < 2^(e+1)\<close> for positive \<open>y\<close>. The range of the exponent
  is not modelled (no overflow to infinity, no subnormal numbers): the values that the
  functions below compute on 12 random bytes and small arguments are far inside it.
\<close>

definition round_half_even :: "rat \<Rightarrow> int" where
  "round_half_even x =
     (let f = \<lfloor>x\<rfloor>; r = x - of_int f in
      if r < 1 / 2 then f else if 1 / 2 < r then f + 1 else if even f then f else f + 1)"

definition binexp :: "rat \<Rightarrow> int" where
  "binexp y =
     (let (p, q) = quotient_of y; k = bitlen p - bitlen q in
      if 2 powi k \<le> y then k else k - 1)"

definition rnd :: "rat \<Rightarrow> rat" where
  "rnd x =
     (if x = 0 then 0
      else (let ulp = 2 powi (binexp \<bar>x\<bar> - 52) in
            of_int (round_half_even (x / ulp)) * ulp))"

text \<open>
  A number is an \<open>int\<close> (unbounded) or a \<open>float\<close>. Arithmetic on two ints is exact;
  with a float operand the int operand is converted (rounded) and the result is the
  rounded exact result. Comparison is exact. \<open>int(x)\<close> truncates towards zero.
\<close>

datatype pynum = PyInt int | PyFloat rat

definition to_float :: "pynum \<Rightarrow> rat" where
  "to_float x = (case x of PyInt i \<Rightarrow> rnd (of_int i) | PyFloat f \<Rightarrow> f)"

definition num_value :: "pynum \<Rightarrow> rat" where
  "num_value x = (case x of PyInt i \<Rightarrow> of_int i | PyFloat f \<Rightarrow> f)"

definition py_add :: "pynum \<Rightarrow> pynum \<Rightarrow> pynum" where
  "py_add x y =
     (case (x, y) of
        (PyInt a, PyInt b) \<Rightarrow> PyInt (a + b)
      | _ \<Rightarrow> PyFloat (rnd (to_float x + to_float y)))"

definition py_sub :: "pynum \<Rightarrow> pynum \<Rightarrow> pynum" where
  "py_sub x y =
     (case (x, y) of
        (PyInt a, PyInt b) \<Rightarrow> PyInt (a - b)
      | _ \<Rightarrow> PyFloat (rnd (to_float x - to_float y)))"

definition py_mul :: "pynum \<Rightarrow> pynum \<Rightarrow> pynum" where
  "py_mul x y =
     (case (x, y) of
        (PyInt a, PyInt b) \<Rightarrow> PyInt (a * b)
      | _ \<Rightarrow> PyFloat (rnd (to_float x * to_float y)))"

text \<open>
  \<open>x / y\<close> with a float operand (the module has \<open>from __future__ import division\<close>, and
  every division in it has a float operand).
\<close>

definition py_fdiv :: "pynum \<Rightarrow> pynum \<Rightarrow> error + pynum" where
  "py_fdiv x y =
     (if num_value y = 0 then Inl ZeroDivisionError
      else Inr (PyFloat (rnd (to_float x / to_float y))))"

definition py_lt :: "pynum \<Rightarrow> pynum \<Rightarrow> bool" where
  "py_lt x y \<longleftrightarrow> num_value x < num_value y"

definition py_int :: "pynum \<Rightarrow> int" where
  "py_int x =
     (case x of
        PyInt i \<Rightarrow> i
      | PyFloat f \<Rightarrow> (if 0 \<le> f then \<lfloor>f\<rfloor> else \<lceil>f\<rceil>))"

text \<open>
  \<open>int(s, 16)\<close> on a string of hexadecimal digits: ValueError on the empty string and on
  any other character. (Python also accepts surrounding white space, a sign and a
  \<open>0x\<close> prefix; the only argument in this module is the result of \<open>hexlify\<close>.)
\<close>

fun hex_digits_value :: "int \<Rightarrow> string \<Rightarrow> error + int" where
  "hex_digits_value acc [] = Inr acc"
| "hex_digits_value acc (c # cs) =
     (case hex_value c of
        None \<Rightarrow> Inl ValueError
      | Some d \<Rightarrow> hex_digits_value (16 * acc + int d) cs)"

text \<open>The unsigned integer that a byte string denotes, most significant byte first.\<close>

fun bytes_value :: "int \<Rightarrow> string \<Rightarrow> int" where
  "bytes_value acc [] = acc"
| "bytes_value acc (c # cs) = bytes_value (256 * acc + int (of_char c)) cs"

definition py_int16 :: "string \<Rightarrow> error + int" where
  "py_int16 s = (if s = [] then Inl ValueError else hex_digits_value 0 s)"

text \<open>
  \<open>"{0:d}".format(n)\<close> and \<open>str(n)\<close>: the decimal digits, with a sign if negative.
  \<open>dec_digits\<close> gives the digits of a non-negative integer.
\<close>

function dec_digits :: "int \<Rightarrow> string" where
  "dec_digits n =
     (if n < 10 then [char_of (48 + n)]
      else dec_digits (n div 10) @ [char_of (48 + n mod 10)])"
  by pat_completeness auto
termination
  by (relation "measure nat") auto

declare dec_digits.simps [simp del]

definition py_format_d :: "int \<Rightarrow> string" where
  "py_format_d n = (if n < 0 then CHR ''-'' # dec_digits (- n) else dec_digits n)"

definition is_digit :: "char \<Rightarrow> bool" where
  "is_digit c \<longleftrightarrow> 48 \<le> (of_char c :: nat) \<and> (of_char c :: nat) \<le> 57"

section \<open>Random bytes and the functions scaled from them\<close>

text \<open>\<open>geturandom(length=20, hex=False)\<close>, lines 511-528.\<close>

definition geturandom :: "'m hsm_env \<Rightarrow> int \<Rightarrow> bool \<Rightarrow> 'm app_store \<Rightarrow> (error + string) \<times> 'm app_store" where
  "geturandom E len hex app_store =
     (case get_hsm E True app_store of
        (Inl e, st) \<Rightarrow> (Inl e, st)
      | (Inr hsm, st) \<Rightarrow>
          (case m_random E hsm len of
             Inl e \<Rightarrow> (Inl e, st)
           | Inr ret \<Rightarrow> (Inr (if hex then hexlify ret else ret), st)))"

text \<open>\<open>urandom.precision\<close> and \<open>urandom.random()\<close>, lines 535-556.\<close>

definition precision :: int where
  "precision = 12"

definition urandom_random :: "'m hsm_env \<Rightarrow> 'm app_store \<Rightarrow> (error + pynum) \<times> 'm app_store" where
  "urandom_random E app_store =
     (case geturandom E precision True app_store of
        (Inl e, st) \<Rightarrow> (Inl e, st)
      | (Inr randhex, st) \<Rightarrow>
          (case py_int16 randhex of
             Inl e \<Rightarrow> (Inl e, st)
           | Inr i \<Rightarrow>
               (let randi = py_mul (PyInt i) (PyFloat 1);
                    intmax = py_mul (PyInt (2 ^ nat (8 * precision))) (PyFloat 1)
                in (py_fdiv randi intmax, st))))"

text \<open>\<open>urandom.uniform(start, end=None)\<close>, lines 558-585.\<close>

definition uniform :: "'m hsm_env \<Rightarrow> pynum \<Rightarrow> pynum option \<Rightarrow> 'm app_store \<Rightarrow> (error + pynum) \<times> 'm app_store" where
  "uniform E start0 end0 app_store =
     (let (start, end) = (case end0 of None \<Rightarrow> (PyFloat 0, start0) | Some e \<Rightarrow> (start0, e));
          startf = py_mul start (PyFloat 1);
          dist = py_sub end start;
          (dist, startf) =
            (if py_lt dist (PyInt 0) then (py_mul dist (PyFloat (- 1)), py_mul end (PyFloat 1))
             else (dist, startf))
      in case urandom_random E app_store of
           (Inl e, st) \<Rightarrow> (Inl e, st)
         | (Inr ret, st) \<Rightarrow> (Inr (py_add startf (py_mul ret dist)), st))"

text \<open>\<open>urandom.randint(start, end=None)\<close>, lines 587-609.\<close>

definition randint :: "'m hsm_env \<Rightarrow> pynum \<Rightarrow> pynum option \<Rightarrow> 'm app_store \<Rightarrow> (error + int) \<times> 'm app_store" where
  "randint E start0 end0 app_store =
     (let (start, end) = (case end0 of None \<Rightarrow> (PyInt 0, start0) | Some e \<Rightarrow> (start0, e));
          dist = py_sub end start;
          (dist, start) =
            (if py_lt dist (PyInt 0) then (py_mul dist (PyInt (- 1)), end)
             else (dist, start))
      in case urandom_random E app_store of
           (Inl e, st) \<Rightarrow> (Inl e, st)
         | (Inr randf, st) \<Rightarrow> (Inr (py_int (py_add start (py_mul randf dist))), st))"

text \<open>\<open>urandom.choice(array)\<close>, lines 611-621; an index out of range is an IndexError.\<close>

definition choice :: "'m hsm_env \<Rightarrow> 'a list \<Rightarrow> 'm app_store \<Rightarrow> (error + 'a) \<times> 'm app_store" where
  "choice E array app_store =
     (let size = int (length array) in
      case randint E (PyInt 0) (Some (PyInt size)) app_store of
        (Inl e, st) \<Rightarrow> (Inl e, st)
      | (Inr idx, st) \<Rightarrow>
          (let j = (if idx < 0 then size + idx else idx) in
           if 0 \<le> j \<and> j < size then (Inr (array ! nat j), st) else (Inl IndexError, st)))"

text \<open>
  \<open>get_rand_digit_str(length=16)\<close>, lines 642-662. \<open>digit_str_clen\<close> is the value of
  \<open>clen = int(length / 2.4 + 0.5)\<close>; the literal \<open>2.4\<close> is the double nearest to 12/5.
\<close>

definition digit_str_clen :: "int \<Rightarrow> error + int" where
  "digit_str_clen len =
     (case py_fdiv (PyInt len) (PyFloat (rnd (12 / 5))) of
        Inl e \<Rightarrow> Inl e
      | Inr q \<Rightarrow> Inr (py_int (py_add q (PyFloat (1 / 2)))))"

definition get_rand_digit_str :: "'m hsm_env \<Rightarrow> int \<Rightarrow> 'm app_store \<Rightarrow> (error + string) \<times> 'm app_store" where
  "get_rand_digit_str E len app_store =
     (if len = 1 then (Inl ValueError, app_store)
      else
        (case digit_str_clen len of
           Inl e \<Rightarrow> (Inl e, app_store)
         | Inr clen \<Rightarrow>
             (case geturandom E clen True app_store of
                (Inl e, st) \<Rightarrow> (Inl e, st)
              | (Inr randd, st) \<Rightarrow>
                  (case py_int16 randd of
                     Inl e \<Rightarrow> (Inl e, st)
                   | Inr n \<Rightarrow>
                       (let s = py_format_d n in
                        if int (length s) < len
                          then (Inr (replicate (nat (len - int (length s))) (CHR ''0'') @ s), st)
                        else if int (length s) > len
                          then (Inr (py_slice_to s len), st)
                        else (Inr s, st))))))"

text \<open>The stand-in module with a random source that returns the given bytes.\<close>

definition fixed_random_hsm :: "string \<Rightarrow> bool hsm_env" where
  "fixed_random_hsm bytes = toy_hsm\<lparr>m_random := (\<lambda>m n. Inr bytes)\<rparr>"

section \<open>The Sign class\<close>

text \<open>
  \<open>Crypto.PublicKey.RSA\<close>, \<open>Crypto.Signature.pkcs1_15\<close> and SHA-256 are library
  parameters. \<open>import_key\<close> is \<open>RSA.importKey\<close>; \<open>rsa_sign\<close> is the first element of
  the tuple that \<open>RSAkey.sign(hashvalue, 1)\<close> returns, \<open>rsa_verify\<close> is
  \<open>RSAkey.verify(hashvalue, (signature,))\<close>; \<open>pkcs_sign\<close> and \<open>pkcs_verify\<close> are
  \<open>pkcs1_15.new(RSAkey).sign(hashobj)\<close>, which returns a byte string, and
  \<open>pkcs1_15.new(RSAkey).verify(hashobj, signature)\<close>, which returns nothing and raises
  on an invalid signature. A hash object is represented by its digest. \<open>utf8\<close> encodes a
  unicode message, given by its code points.
\<close>

record 'k rsa_lib =
  import_key :: "string \<Rightarrow> error + 'k"
  sha256_digest :: "string \<Rightarrow> string"
  rsa_sign :: "'k \<Rightarrow> string \<Rightarrow> error + int"
  rsa_verify :: "'k \<Rightarrow> string \<Rightarrow> int \<Rightarrow> error + bool"
  pkcs_sign :: "'k \<Rightarrow> string \<Rightarrow> error + string"
  pkcs_verify :: "'k \<Rightarrow> string \<Rightarrow> int \<Rightarrow> error + unit"
  utf8 :: "nat list \<Rightarrow> string"

datatype message = Bytes string | Text "nat list"

record sign_obj =
  sg_private :: string
  sg_public :: string

definition encode_message :: "'k rsa_lib \<Rightarrow> message \<Rightarrow> string" where
  "encode_message R s = (case s of Bytes b \<Rightarrow> b | Text t \<Rightarrow> utf8 R t)"

text \<open>
  \<open>long(s)\<close> on a string (Python 2): white space, an optional sign, white space, at
  least one decimal digit, an optional \<open>L\<close> or \<open>l\<close>, white space; ValueError on
  anything else. The digits are read from the last one.
\<close>

definition is_space :: "char \<Rightarrow> bool" where
  "is_space c \<longleftrightarrow>
     c = CHR 0x20 \<or> c = CHR 0x09 \<or> c = CHR 0x0A \<or> c = CHR 0x0B \<or> c = CHR 0x0C \<or> c = CHR 0x0D"

fun dec_value_rev :: "string \<Rightarrow> error + int" where
  "dec_value_rev [] = Inr 0"
| "dec_value_rev (c # cs) =
     (if is_digit c
      then (case dec_value_rev cs of
              Inl e \<Rightarrow> Inl e
            | Inr v \<Rightarrow> Inr (10 * v + (of_char c - 48)))
      else Inl ValueError)"

definition py_long :: "string \<Rightarrow> error + int" where
  "py_long s =
     (let s1 = dropWhile is_space s;
          negative = (case s1 of [] \<Rightarrow> False | c # cs \<Rightarrow> c = CHR ''-'');
          s2 = (case s1 of
                  [] \<Rightarrow> []
                | c # cs \<Rightarrow> if c = CHR ''-'' \<or> c = CHR ''+'' then cs else s1);
          s3 = dropWhile is_space s2;
          digits = takeWhile is_digit s3;
          rest = dropWhile is_digit s3;
          rest1 = (case rest of
                     [] \<Rightarrow> []
                   | c # cs \<Rightarrow> if c = CHR ''L'' \<or> c = CHR ''l'' then cs else rest);
          rest2 = dropWhile is_space rest1
      in if digits = [] \<or> rest2 \<noteq> [] then Inl ValueError
         else (case dec_value_rev (rev digits) of
                 Inl e \<Rightarrow> Inl e
               | Inr v \<Rightarrow> Inr (if negative then - v else v)))"

text \<open>
  \<open>Sign.sign(s)\<close>, lines 727-746. \<open>sign_with_rsa\<close> is the module constant
  \<open>SIGN_WITH_RSA\<close>, which is true when \<open>pkcs1_15\<close> cannot be imported. In the other
  branch \<open>signature\<close> is a byte string and \<open>str(signature[0])\<close> is its first character.
\<close>

definition Sign_sign :: "'k rsa_lib \<Rightarrow> bool \<Rightarrow> sign_obj \<Rightarrow> message \<Rightarrow> error + string" where
  "Sign_sign R sign_with_rsa self s0 =
     (let s = encode_message R s0 in
      case import_key R (sg_private self) of
        Inl e \<Rightarrow> Inl e
      | Inr RSAkey \<Rightarrow>
          (if sign_with_rsa
           then (let hashvalue = sha256_digest R s in
                 case rsa_sign R RSAkey hashvalue of
                   Inl e \<Rightarrow> Inl e
                 | Inr signature0 \<Rightarrow> Inr (py_format_d signature0))
           else (let hashvalue = sha256_digest R s in
                 case pkcs_sign R RSAkey hashvalue of
                   Inl e \<Rightarrow> Inl e
                 | Inr signature \<Rightarrow>
                     (case py_first signature of
                        Inl e \<Rightarrow> Inl e
                      | Inr ch \<Rightarrow> Inr [ch]))))"

text \<open>
  \<open>Sign.verify(s, signature)\<close>, lines 748-772. Every exception inside the \<open>try\<close> is
  caught and leaves \<open>r = False\<close>. The branch for \<open>pkcs1_15\<close> calls \<open>verify\<close> and never
  assigns \<open>r\<close>.
\<close>

definition Sign_verify :: "'k rsa_lib \<Rightarrow> bool \<Rightarrow> sign_obj \<Rightarrow> message \<Rightarrow> string \<Rightarrow> bool" where
  "Sign_verify R sign_with_rsa self s0 signature =
     (let s = encode_message R s0;
          r = False
      in case import_key R (sg_public self) of
           Inl e \<Rightarrow> r
         | Inr RSAkey \<Rightarrow>
             (case py_long signature of
                Inl e \<Rightarrow> r
              | Inr sig \<Rightarrow>
                  (if sign_with_rsa
                   then (let hashvalue = sha256_digest R s in
                         case rsa_verify R RSAkey hashvalue sig of
                           Inl e \<Rightarrow> r
                         | Inr v \<Rightarrow> v)
                   else (let hashvalue = sha256_digest R s in
                         case pkcs_verify R RSAkey hashvalue sig of
                           Inl e \<Rightarrow> r
                         | Inr u \<Rightarrow> r))))"

text \<open>
  A stand-in for the RSA library in which every signature is valid: the key is the key
  text, the digest is the message, a raw signature is the number 42 and a PKCS#1 v1.5
  signature is the byte string "sig".
\<close>

definition toy_rsa :: "string rsa_lib" where
  "toy_rsa = \<lparr>
     import_key = Inr,
     sha256_digest = (\<lambda>s. s),
     rsa_sign = (\<lambda>k h. Inr 42),
     rsa_verify = (\<lambda>k h sig. Inr (sig = 42)),
     pkcs_sign = (\<lambda>k h. Inr ''sig''),
     pkcs_verify = (\<lambda>k h sig. Inr ()),
     utf8 = map char_of \<rparr>"

definition toy_keys :: sign_obj where
  "toy_keys = \<lparr> sg_private = ''private key'', sg_public = ''public key'' \<rparr>"

section \<open>The base64 envelope\<close>

text \<open>
  \<open>base64.b64encode\<close> and \<open>base64.b64decode\<close> of the standard library are parameters;
  their contract is that decoding an encoded string returns it.
\<close>

record b64_lib =
  b64encode :: "string \<Rightarrow> string"
  b64decode :: "string \<Rightarrow> error + string"

definition b64_contract :: "b64_lib \<Rightarrow> bool" where
  "b64_contract B \<longleftrightarrow> (\<forall>x. b64decode B (b64encode B x) = Inr x)"

text \<open>\<open>aes_encrypt_b64(key, data)\<close>, lines 479-491.\<close>

definition aes_encrypt_b64 :: "'c aes_lib \<Rightarrow> b64_lib \<Rightarrow> 'm hsm_env \<Rightarrow> string \<Rightarrow> string \<Rightarrow> 'm app_store \<Rightarrow> (error + string) \<times> 'm app_store" where
  "aes_encrypt_b64 L B E key data app_store =
     (case geturandom E 16 False app_store of
        (Inl e, st) \<Rightarrow> (Inl e, st)
      | (Inr iv, st) \<Rightarrow>
          (case aes_encrypt L key iv data MODE_CBC of
             Inl e \<Rightarrow> (Inl e, st)
           | Inr encdata \<Rightarrow> (Inr (b64encode B (iv @ encdata)), st)))"

text \<open>\<open>aes_decrypt_b64(key, data_b64)\<close>, lines 494-507.\<close>

definition aes_decrypt_b64 :: "'c aes_lib \<Rightarrow> b64_lib \<Rightarrow> string \<Rightarrow> string \<Rightarrow> error + string" where
  "aes_decrypt_b64 L B key data_b64 =
     (case b64decode B data_b64 of
        Inl e \<Rightarrow> Inl e
      | Inr data_bin \<Rightarrow>
          (let iv = take 16 data_bin;
               encdata = drop 16 data_bin
           in aes_decrypt L key iv encdata MODE_CBC))"

text \<open>A stand-in for the codec, base 16 in place of base 64.\<close>

definition hex_codec :: b64_lib where
  "hex_codec = \<lparr> b64encode = hexlify, b64decode = unhexlify \<rparr>"

section \<open>Properties of the AES envelope helpers\<close>

lemma null_aes_contract: "aes_cbc_contract null_aes"
  by (simp add: aes_cbc_contract_def null_aes_def)

lemma aes_cbc_contractD:
  assumes "aes_cbc_contract L" "length key \<in> {16, 24, 32}" "length iv = 16" "length d mod 16 = 0"
  obtains a c where "aes_new L key MODE_CBC iv = Inr a" "aes_obj_encrypt L a d = Inr c"
    "length c = length d" "aes_obj_decrypt L a c = Inr d"
proof -
  from assms(1) have "length key \<in> {16, 24, 32} \<and> length iv = 16 \<and> length d mod 16 = 0 \<longrightarrow>
        (\<exists>a c. aes_new L key MODE_CBC iv = Inr a \<and> aes_obj_encrypt L a d = Inr c \<and>
               length c = length d \<and> aes_obj_decrypt L a c = Inr d)"
    unfolding aes_cbc_contract_def by (elim allE)
  with assms(2-4) have "\<exists>a c. aes_new L key MODE_CBC iv = Inr a \<and> aes_obj_encrypt L a d = Inr c \<and>
               length c = length d \<and> aes_obj_decrypt L a c = Inr d"
    by simp
  then show thesis using that by (elim exE conjE)
qed

lemma pad_length:
  "length (data @ replicate (block_size - (length data mod block_size)) ch) mod 16 = 0"
proof -
  have "(length data + (16 - length data mod 16)) mod 16 = 0"
    by presburger
  then show ?thesis by (simp add: block_size_def)
qed

lemma pkcs7_pad_unpad:
  assumes lib: "aes_cbc_contract L"
    and key: "length key \<in> {16, 24, 32}"
    and iv: "length iv = 16"
  shows "\<exists>c. aes_encrypt L key iv data MODE_CBC = Inr c \<and>
             aes_decrypt L key iv c MODE_CBC = Inr data"
proof -
  define n where "n = block_size - (length data mod block_size)"
  define ch where "ch = char_of n"
  define padded where "padded = data @ replicate n ch"
  have n_pos: "0 < n" and n_le: "n \<le> 16"
    by (simp_all add: n_def block_size_def)
  have chr: "py_chr (int n) = Inr ch"
    using n_le by (simp add: py_chr_def ch_def)
  have ord: "of_char ch = n"
    using n_le by (simp add: ch_def)
  have "length padded mod 16 = 0"
    unfolding padded_def n_def by (rule pad_length)
  with lib key iv obtain a c where
    new: "aes_new L key MODE_CBC iv = Inr a" and
    enc: "aes_obj_encrypt L a padded = Inr c" and
    dec: "aes_obj_decrypt L a c = Inr padded"
    by (rule aes_cbc_contractD)
  have e: "aes_encrypt L key iv data MODE_CBC = Inr c"
    using new enc chr by (simp add: aes_encrypt_def Let_def n_def [symmetric] padded_def)
  have last: "py_last padded = Inr ch"
  proof -
    have ne: "padded \<noteq> []" and l: "last padded = ch"
      using n_pos by (simp_all add: padded_def)
    then show ?thesis by (cases padded) (simp_all add: py_last_def)
  qed
  have slice: "py_slice_to padded (- int n) = data"
    using n_pos by (simp add: py_slice_to_def padded_def)
  have d: "aes_decrypt L key iv c MODE_CBC = Inr data"
    using new dec last slice by (simp add: aes_decrypt_def Let_def ord)
  from e d show ?thesis by blast
qed

text \<open>
  C2. For every key of 16, 24 or 32 bytes, every 16-byte IV and every byte string
  \<open>data\<close> of any length, encrypting with \<open>aes_encrypt\<close> returns a ciphertext, and
  \<open>aes_decrypt\<close> of that ciphertext under the same key and IV returns exactly \<open>data\<close>.
\<close>

theorem aes_encrypt_decrypt_roundtrip:
  assumes lib: "aes_cbc_contract L"
    and key: "length key \<in> {16, 24, 32}"
    and iv: "length iv = 16"
  shows "\<exists>c. aes_encrypt L key iv data MODE_CBC = Inr c \<and>
             aes_decrypt L key iv c MODE_CBC = Inr data"
  using assms by (rule pkcs7_pad_unpad)

theorem aes_encrypt_decrypt_roundtrip_witness:
  "aes_cbc_contract null_aes \<and> length key16 \<in> {16, 24, 32} \<and> length iv16 = 16 \<and>
   (\<exists>c. aes_encrypt null_aes key16 iv16 ''0123456789abcdef'' MODE_CBC = Inr c \<and>
        aes_decrypt null_aes key16 iv16 c MODE_CBC = Inr ''0123456789abcdef'')"
  using aes_encrypt_decrypt_roundtrip [OF null_aes_contract, of key16 iv16 "''0123456789abcdef''"]
    null_aes_contract
  by (simp add: key16_def iv16_def)

lemma aes_decrypt_raw:
  "aes_decrypt L key iv c mode =
     (case raw_decrypt L key iv c mode of
        Inl e \<Rightarrow> Inl e
      | Inr out \<Rightarrow>
          (case out of
             [] \<Rightarrow> Inl IndexError
           | _ \<Rightarrow> Inr (py_slice_to out (- int (of_char (last out))))))"
  by (simp add: aes_decrypt_def raw_decrypt_def py_last_def Let_def
      split: sum.splits list.splits)

lemma py_slice_to_zero [simp]: "py_slice_to s 0 = []"
  by (simp add: py_slice_to_def)

lemma py_slice_to_neg:
  "py_slice_to s (- int b) = (if b = 0 then [] else take (length s - b) s)"
  by (simp add: py_slice_to_def nat_diff_distrib')

lemma null_aes_raw_decrypt:
  "length c mod 16 = 0 \<Longrightarrow> raw_decrypt null_aes key16 iv16 c MODE_CBC = Inr c"
  by (simp add: raw_decrypt_def null_aes_def key16_def iv16_def)

text \<open>
  C5, as stated, fails: the stand-in library decrypts \<open>cipher_bad_padding\<close> to a
  plaintext whose last byte is 5 while the four bytes before it are not 5, and
  \<open>aes_decrypt\<close> returns the first 11 bytes instead of raising.
\<close>

theorem aes_decrypt_no_padding_check_counterexample:
  "raw_decrypt null_aes key16 iv16 cipher_bad_padding MODE_CBC = Inr cipher_bad_padding \<and>
   \<not> pkcs7_padding_ok cipher_bad_padding \<and>
   aes_decrypt null_aes key16 iv16 cipher_bad_padding MODE_CBC = Inr ''0123456789a''"
  by (simp add: aes_decrypt_raw null_aes_raw_decrypt py_slice_to_def
      cipher_bad_padding_def pkcs7_padding_ok_def block_size_def)

text \<open>
  C5, amended. \<open>aes_decrypt\<close> does not validate the padding: whenever the raw
  decryption returns a non-empty plaintext \<open>output\<close> whose padding is not valid PKCS#7
  (last byte \<open>b\<close> outside \<open>[1, block_size]\<close>, or trailing bytes that differ from it),
  \<open>aes_decrypt\<close> raises nothing and returns exactly \<open>output[0:-b]\<close>, the empty string
  for \<open>b = 0\<close> and the first \<open>len - b\<close> bytes otherwise, although the bytes it cuts off
  are not \<open>b\<close> copies of a pad byte \<open>b\<close> in \<open>[1, block_size]\<close>.
\<close>

theorem aes_decrypt_invalid_padding_truncates:
  assumes "raw_decrypt L key iv c mode = Inr out"
    and "out \<noteq> []"
    and "\<not> pkcs7_padding_ok out"
  shows "aes_decrypt L key iv c mode =
           Inr (if of_char (last out) = (0 :: nat) then []
                else take (length out - of_char (last out)) out) \<and>
         \<not> (1 \<le> (of_char (last out) :: nat) \<and> (of_char (last out) :: nat) \<le> block_size \<and>
            out = take (length out - of_char (last out)) out @
                    replicate (of_char (last out)) (last out))"
proof -
  define b :: nat where "b = of_char (last out)"
  have res: "aes_decrypt L key iv c mode = Inr (if b = 0 then [] else take (length out - b) out)"
    using assms(1,2) by (cases out) (simp_all add: aes_decrypt_raw py_slice_to_neg b_def)
  have "\<not> (1 \<le> b \<and> b \<le> block_size \<and> out = take (length out - b) out @ replicate b (last out))"
  proof
    assume h: "1 \<le> b \<and> b \<le> block_size \<and> out = take (length out - b) out @ replicate b (last out)"
    then have eq: "out = take (length out - b) out @ replicate b (last out)" by blast
    have "length out = length (take (length out - b) out @ replicate b (last out))"
      using eq by simp
    then have le: "b \<le> length out" by simp
    have "drop (length out - b) out =
            drop (length out - b) (take (length out - b) out @ replicate b (last out))"
      using eq by simp
    also have "\<dots> = replicate b (last out)"
      using le by simp
    finally have "list_all (\<lambda>ch. ch = last out) (drop (length out - b) out)"
      by (simp add: list_all_iff)
    with h le assms(2) have "pkcs7_padding_ok out"
      by (cases out) (simp_all add: pkcs7_padding_ok_def b_def Let_def)
    with assms(3) show False by blast
  qed
  with res show ?thesis by (simp add: b_def)
qed

theorem aes_decrypt_invalid_padding_truncates_witness:
  "raw_decrypt null_aes key16 iv16 cipher_bad_padding MODE_CBC = Inr cipher_bad_padding \<and>
   cipher_bad_padding \<noteq> [] \<and> \<not> pkcs7_padding_ok cipher_bad_padding \<and>
   aes_decrypt null_aes key16 iv16 cipher_bad_padding MODE_CBC = Inr ''0123456789a''"
proof -
  have h1: "raw_decrypt null_aes key16 iv16 cipher_bad_padding MODE_CBC = Inr cipher_bad_padding"
    by (simp add: null_aes_raw_decrypt cipher_bad_padding_def)
  have h2: "cipher_bad_padding \<noteq> []"
    by (simp add: cipher_bad_padding_def)
  have h3: "\<not> pkcs7_padding_ok cipher_bad_padding"
    by (simp add: cipher_bad_padding_def pkcs7_padding_ok_def block_size_def)
  have "aes_decrypt null_aes key16 iv16 cipher_bad_padding MODE_CBC =
          Inr (if of_char (last cipher_bad_padding) = (0 :: nat) then []
               else take (length cipher_bad_padding - of_char (last cipher_bad_padding))
                      cipher_bad_padding)"
    using aes_decrypt_invalid_padding_truncates [OF h1 h2 h3] by blast
  then have "aes_decrypt null_aes key16 iv16 cipher_bad_padding MODE_CBC = Inr ''0123456789a''"
    by (simp add: cipher_bad_padding_def)
  with h1 h2 h3 show ?thesis by blast
qed

text \<open>
  Where the last decrypted byte is 0 the slice is \<open>output[0:-0]\<close>, that is
  \<open>output[0:0]\<close>: the whole plaintext is discarded.
\<close>

lemma aes_decrypt_zero_pad_empty:
  "raw_decrypt null_aes key16 iv16 cipher_zero_pad MODE_CBC = Inr cipher_zero_pad \<and>
   of_char (last cipher_zero_pad) = (0 :: nat) \<and>
   aes_decrypt null_aes key16 iv16 cipher_zero_pad MODE_CBC = Inr []"
  by (simp add: aes_decrypt_raw null_aes_raw_decrypt py_slice_to_def cipher_zero_pad_def)

text \<open>
  C9. For every key, IV and ciphertext whose raw decryption is a non-empty plaintext
  \<open>output\<close> with last byte \<open>b\<close>, \<open>aes_decrypt\<close> raises nothing and returns
  \<open>output[0:-b]\<close>: the first \<open>len - b\<close> bytes, and the empty byte string when \<open>b\<close> is 0
  or at least the length of the plaintext, so that the entire plaintext is discarded.
\<close>

theorem aes_decrypt_returns_slice:
  assumes "raw_decrypt L key iv c mode = Inr out"
    and "out \<noteq> []"
  shows "aes_decrypt L key iv c mode =
           Inr (if of_char (last out) = (0 :: nat) then []
                else take (length out - of_char (last out)) out) \<and>
         (of_char (last out) = (0 :: nat) \<or> length out \<le> of_char (last out)
            \<longrightarrow> aes_decrypt L key iv c mode = Inr [])"
  using assms by (cases out) (simp_all add: aes_decrypt_raw py_slice_to_neg)

theorem aes_decrypt_returns_slice_witness:
  "raw_decrypt null_aes key16 iv16 cipher_zero_pad MODE_CBC = Inr cipher_zero_pad \<and>
   cipher_zero_pad \<noteq> [] \<and>
   aes_decrypt null_aes key16 iv16 cipher_zero_pad MODE_CBC =
     Inr (if of_char (last cipher_zero_pad) = (0 :: nat) then []
          else take (length cipher_zero_pad - of_char (last cipher_zero_pad)) cipher_zero_pad)"
proof -
  have h1: "raw_decrypt null_aes key16 iv16 cipher_zero_pad MODE_CBC = Inr cipher_zero_pad"
    by (simp add: null_aes_raw_decrypt cipher_zero_pad_def)
  have h2: "cipher_zero_pad \<noteq> []"
    by (simp add: cipher_zero_pad_def)
  from aes_decrypt_returns_slice [OF h1 h2] h1 h2 show ?thesis
    by simp
qed

section \<open>Properties of the security module handle\<close>

lemma init_hsm_initialized [simp]:
  "init_hsm E (HsmConfig obj) = (Inr obj, HsmConfig obj)"
  by (simp add: init_hsm_def)

lemma get_hsm_ready [simp]:
  "m_is_ready E m \<Longrightarrow> get_hsm E r (HsmConfig (Some m)) = (Inr m, HsmConfig (Some m))"
  by (simp add: get_hsm_def)

text \<open>
  C6. On a configured but fresh module (the configured class instantiates to a module
  \<open>m0\<close> that is not ready): \<open>get_hsm\<close> with \<open>require_ready=True\<close> raises
  "hsm not ready!", on the first call, which creates the handle, and on every later call
  on the stored module, while \<open>get_hsm(require_ready=False)\<close> returns the module.
  \<open>set_hsm_password\<close> delegates to \<open>setup_module\<close> with the password and returns
  exactly what \<open>setup_module\<close> returns, flag or exception, and the store holds the module
  as \<open>setup_module\<close> left it. The same \<open>get_hsm\<close> call afterwards returns the module if
  it is now ready and raises "hsm not ready!" if it is not. On a ready module a second
  \<open>set_hsm_password\<close> raises "HSM already set up." and leaves the store as it is,
  whatever \<open>setup_module\<close> would do.
\<close>

theorem hsm_password_lifecycle:
  assumes fresh: "new_hsm E = Inr m0" "\<not> m_is_ready E m0"
    and call: "m_setup_module E m0 [(''password'', pw)] = (r, m1)"
  shows "get_hsm E True NoEntry = (Inl (HSMException ''hsm not ready!''), HsmConfig (Some m0)) \<and>
         get_hsm E True (HsmConfig (Some m0)) =
           (Inl (HSMException ''hsm not ready!''), HsmConfig (Some m0)) \<and>
         get_hsm E False (HsmConfig (Some m0)) = (Inr m0, HsmConfig (Some m0)) \<and>
         set_hsm_password E pw NoEntry = (r, HsmConfig (Some m1)) \<and>
         set_hsm_password E pw (HsmConfig (Some m0)) = (r, HsmConfig (Some m1)) \<and>
         get_hsm E True (HsmConfig (Some m1)) =
           (if m_is_ready E m1 then Inr m1 else Inl (HSMException ''hsm not ready!''),
            HsmConfig (Some m1)) \<and>
         (m_is_ready E m1 \<longrightarrow>
            set_hsm_password (E\<lparr>m_setup_module := f\<rparr>) pw' (HsmConfig (Some m1)) =
              (Inl (HSMException ''HSM already set up.''), HsmConfig (Some m1)))"
  using assms by (simp add: get_hsm_def set_hsm_password_def init_hsm_def)

theorem hsm_password_lifecycle_witness:
  "new_hsm toy_hsm = Inr False \<and> \<not> m_is_ready toy_hsm False \<and>
   m_setup_module toy_hsm False [(''password'', ''x'')] = (Inr True, True) \<and>
   get_hsm toy_hsm True NoEntry = (Inl (HSMException ''hsm not ready!''), HsmConfig (Some False)) \<and>
   get_hsm toy_hsm True (HsmConfig (Some False)) =
     (Inl (HSMException ''hsm not ready!''), HsmConfig (Some False)) \<and>
   set_hsm_password toy_hsm ''x'' (HsmConfig (Some False)) = (Inr True, HsmConfig (Some True)) \<and>
   get_hsm toy_hsm True (HsmConfig (Some True)) = (Inr True, HsmConfig (Some True)) \<and>
   set_hsm_password toy_hsm ''y'' (HsmConfig (Some True)) =
     (Inl (HSMException ''HSM already set up.''), HsmConfig (Some True))"
proof -
  have fresh: "new_hsm toy_hsm = Inr False" "\<not> m_is_ready toy_hsm False"
    by (simp_all add: toy_hsm_def)
  have call: "m_setup_module toy_hsm False [(''password'', ''x'')] = (Inr True, True)"
    by (simp add: toy_hsm_def)
  have flag: "m_is_ready toy_hsm True"
    by (simp add: toy_hsm_def)
  have same: "toy_hsm\<lparr>m_setup_module := m_setup_module toy_hsm\<rparr> = toy_hsm"
    by simp
  note inst = hsm_password_lifecycle [where f = "m_setup_module toy_hsm" and pw' = "''y''",
      OF fresh call]
  have "get_hsm toy_hsm True NoEntry =
          (Inl (HSMException ''hsm not ready!''), HsmConfig (Some False))"
    and "get_hsm toy_hsm True (HsmConfig (Some False)) =
          (Inl (HSMException ''hsm not ready!''), HsmConfig (Some False))"
    and "set_hsm_password toy_hsm ''x'' (HsmConfig (Some False)) = (Inr True, HsmConfig (Some True))"
    and "get_hsm toy_hsm True (HsmConfig (Some True)) = (Inr True, HsmConfig (Some True))"
    and "set_hsm_password toy_hsm ''y'' (HsmConfig (Some True)) =
          (Inl (HSMException ''HSM already set up.''), HsmConfig (Some True))"
    using inst flag by (simp_all only: same if_True simp_thms)
  with fresh call show ?thesis
    by blast
qed

text \<open>
  A module whose \<open>setup_module\<close> returns false and stays not ready: \<open>set_hsm_password\<close>
  returns false, and \<open>get_hsm\<close> still raises.
\<close>

lemma hsm_password_setup_returns_false:
  "set_hsm_password (toy_hsm\<lparr>m_setup_module := (\<lambda>m params. (Inr False, False))\<rparr>) ''x''
     (HsmConfig (Some False)) = (Inr False, HsmConfig (Some False)) \<and>
   get_hsm (toy_hsm\<lparr>m_setup_module := (\<lambda>m params. (Inr False, False))\<rparr>) True
     (HsmConfig (Some False)) = (Inl (HSMException ''hsm not ready!''), HsmConfig (Some False))"
  by (simp add: set_hsm_password_def get_hsm_def init_hsm_def toy_hsm_def)

section \<open>Properties of binascii and SecretObj.compare\<close>

lemma hex_value_hex_digit: "n < 16 \<Longrightarrow> hex_value (hex_digit n) = Some n"
  by (simp add: hex_value_def hex_digit_def Let_def)

lemma unhexlify_hexlify: "unhexlify (hexlify s) = Inr s"
proof (induction s)
  case Nil
  show ?case by simp
next
  case (Cons c cs)
  have hi: "hex_value (hex_digit (of_char c div 16)) = Some (of_char c div 16)"
    by (rule hex_value_hex_digit) (simp add: less_mult_imp_div_less)
  have lo: "hex_value (hex_digit (of_char c mod 16)) = Some (of_char c mod 16)"
    by (rule hex_value_hex_digit) simp
  have "char_of (16 * (of_char c div 16) + of_char c mod 16 :: nat) = c"
    by simp
  with hi lo Cons show ?case by simp
qed

lemma hexlify_inject: "hexlify a = hexlify b \<Longrightarrow> a = b"
proof -
  assume "hexlify a = hexlify b"
  then have "unhexlify (hexlify a) = unhexlify (hexlify b)" by simp
  then show "a = b" by (simp add: unhexlify_hexlify)
qed

lemma length_hexlify: "length (hexlify s) = 2 * length s"
  by (induction s) simp_all

lemma compare_ready:
  assumes "m_is_ready E m" "m_encrypt E m cand iv 0 = Inr c"
  shows "compare E (SecretObj_init v iv p) (hexlify cand) (HsmConfig (Some m)) =
           (Inr (hexlify c = v), HsmConfig (Some m))"
  using assms by (simp add: compare_def encrypt_def unhexlify_hexlify SecretObj_init_def)

text \<open>
  C4, evaluated where it fails. On a ready module, for a SecretObj whose stored value is
  the non-empty ciphertext \<open>encrypt(raw_key, iv)\<close>, which the module decrypts back to
  \<open>raw_key\<close>: \<open>getKey\<close> returns \<open>raw_key\<close>, and \<open>compare\<close> on the hex encoding of
  \<open>raw_key\<close> returns false, because it compares the hex encoding of the fresh ciphertext
  with the stored ciphertext.
\<close>

theorem compare_rejects_stored_key:
  assumes ready: "m_is_ready E m"
    and enc: "m_encrypt E m raw_key iv 0 = Inr c"
    and ne: "c \<noteq> []"
    and dec: "m_decrypt E m c iv 0 = Inr raw_key"
  shows "getKey E (SecretObj_init c iv p) (HsmConfig (Some m)) =
           (Inr raw_key, HsmConfig (Some m)) \<and>
         compare E (SecretObj_init c iv p) (hexlify raw_key) (HsmConfig (Some m)) =
           (Inr False, HsmConfig (Some m))"
proof -
  have "length (hexlify c) \<noteq> length c"
    using ne by (simp add: length_hexlify)
  then have "hexlify c \<noteq> c"
    by metis
  moreover have "getKey E (SecretObj_init c iv p) (HsmConfig (Some m)) =
                   (Inr raw_key, HsmConfig (Some m))"
    using ready dec by (simp add: getKey_def decrypt_def SecretObj_init_def)
  ultimately show ?thesis
    using compare_ready [OF ready enc, of c p] by simp
qed

theorem compare_rejects_stored_key_witness:
  "m_is_ready toy_hsm True \<and>
   m_encrypt toy_hsm True ''key'' iv16 0 = Inr (''key'' @ iv16) \<and>
   ''key'' @ iv16 \<noteq> [] \<and>
   m_decrypt toy_hsm True (''key'' @ iv16) iv16 0 = Inr ''key'' \<and>
   getKey toy_hsm (SecretObj_init (''key'' @ iv16) iv16 None) (HsmConfig (Some True)) =
     (Inr ''key'', HsmConfig (Some True)) \<and>
   compare toy_hsm (SecretObj_init (''key'' @ iv16) iv16 None) (hexlify ''key'')
     (HsmConfig (Some True)) = (Inr False, HsmConfig (Some True))"
proof -
  have ready: "m_is_ready toy_hsm True"
    and enc: "m_encrypt toy_hsm True ''key'' iv16 0 = Inr (''key'' @ iv16)"
    and dec: "m_decrypt toy_hsm True (''key'' @ iv16) iv16 0 = Inr ''key''"
    by (simp_all add: toy_hsm_def)
  have ne: "''key'' @ iv16 \<noteq> []"
    by simp
  from compare_rejects_stored_key [OF ready enc ne dec, of None] ready enc ne dec
  show ?thesis by blast
qed

text \<open>
  \<open>compare\<close> returns true exactly when the stored value is the hex encoding of the
  ciphertext of the candidate.
\<close>

lemma compare_hex_encoded_value:
  assumes "m_is_ready E m" "m_encrypt E m raw_key iv 0 = Inr c"
  shows "compare E (SecretObj_init (hexlify c) iv p) (hexlify raw_key) (HsmConfig (Some m)) =
           (Inr True, HsmConfig (Some m))"
  using compare_ready [OF assms, of "hexlify c" p] by simp

section \<open>Properties of the base64 envelope\<close>

lemma geturandom_ready:
  "m_is_ready E m \<Longrightarrow>
   geturandom E n hex (HsmConfig (Some m)) =
     ((case m_random E m n of
         Inl e \<Rightarrow> Inl e
       | Inr ret \<Rightarrow> Inr (if hex then hexlify ret else ret)),
      HsmConfig (Some m))"
  by (simp add: geturandom_def split: sum.splits)

lemma hex_codec_contract: "b64_contract hex_codec"
  by (simp add: b64_contract_def hex_codec_def unhexlify_hexlify)

text \<open>
  C7. For every key of a length that AES accepts and every byte string \<open>data\<close>, on a ready
  module whose \<open>random(16)\<close> returns 16 bytes \<open>iv\<close>: \<open>aes_encrypt_b64\<close> draws that IV
  from the module and returns the base64 encoding of \<open>iv\<close> followed by the CBC
  ciphertext, and \<open>aes_decrypt_b64\<close> of that string, which takes the first 16 decoded
  bytes as the IV, returns exactly \<open>data\<close>.
\<close>

theorem aes_b64_roundtrip:
  assumes lib: "aes_cbc_contract L"
    and codec: "b64_contract B"
    and key: "length key \<in> {16, 24, 32}"
    and ready: "m_is_ready E m"
    and rand: "m_random E m 16 = Inr iv"
    and iv: "length iv = 16"
  shows "\<exists>c. aes_encrypt L key iv data MODE_CBC = Inr c \<and>
             aes_encrypt_b64 L B E key data (HsmConfig (Some m)) =
               (Inr (b64encode B (iv @ c)), HsmConfig (Some m)) \<and>
             aes_decrypt_b64 L B key (b64encode B (iv @ c)) = Inr data"
proof -
  obtain c where enc: "aes_encrypt L key iv data MODE_CBC = Inr c"
    and dec: "aes_decrypt L key iv c MODE_CBC = Inr data"
    using pkcs7_pad_unpad [OF lib key iv] by blast
  have e: "aes_encrypt_b64 L B E key data (HsmConfig (Some m)) =
             (Inr (b64encode B (iv @ c)), HsmConfig (Some m))"
    using ready rand enc by (simp add: aes_encrypt_b64_def geturandom_ready)
  have "b64decode B (b64encode B (iv @ c)) = Inr (iv @ c)"
    using codec by (simp add: b64_contract_def)
  then have d: "aes_decrypt_b64 L B key (b64encode B (iv @ c)) = Inr data"
    using iv dec by (simp add: aes_decrypt_b64_def)
  from enc e d show ?thesis by blast
qed

theorem aes_b64_roundtrip_witness:
  "aes_cbc_contract null_aes \<and> b64_contract hex_codec \<and> length key16 \<in> {16, 24, 32} \<and>
   m_is_ready toy_hsm True \<and> m_random toy_hsm True 16 = Inr (replicate 16 (CHR 0xff)) \<and>
   (\<exists>c. aes_encrypt_b64 null_aes hex_codec toy_hsm key16 ''secret'' (HsmConfig (Some True)) =
           (Inr (b64encode hex_codec (replicate 16 (CHR 0xff) @ c)), HsmConfig (Some True)) \<and>
        aes_decrypt_b64 null_aes hex_codec key16
           (b64encode hex_codec (replicate 16 (CHR 0xff) @ c)) = Inr ''secret'')"
proof -
  have key: "length key16 \<in> {16, 24, 32}"
    by (simp add: key16_def)
  have ready: "m_is_ready toy_hsm True"
    and rand: "m_random toy_hsm True 16 = Inr (replicate 16 (CHR 0xff))"
    by (simp_all add: toy_hsm_def)
  have iv: "length (replicate 16 (CHR 0xff)) = 16"
    by simp
  from aes_b64_roundtrip [OF null_aes_contract hex_codec_contract key ready rand iv, of "''secret''"]
    null_aes_contract hex_codec_contract key ready rand
  show ?thesis by blast
qed

section \<open>Properties of get\_rand\_digit\_str\<close>

lemma clen_16: "digit_str_clen 16 = Inr 7"
  by code_simp

lemma clen_3: "digit_str_clen 3 = Inr 1"
  by code_simp

lemma clen_1: "digit_str_clen 1 = Inr 0"
  by code_simp

lemma hex_digits_value_hexlify:
  "0 \<le> acc \<Longrightarrow> \<exists>n. hex_digits_value acc (hexlify r) = Inr n \<and> 0 \<le> n"
proof (induction r arbitrary: acc)
  case Nil
  then show ?case by simp
next
  case (Cons c cs)
  have hi: "hex_value (hex_digit (of_char c div 16)) = Some (of_char c div 16)"
    by (rule hex_value_hex_digit) (simp add: less_mult_imp_div_less)
  have lo: "hex_value (hex_digit (of_char c mod 16)) = Some (of_char c mod 16)"
    by (rule hex_value_hex_digit) simp
  have "0 \<le> 16 * (16 * acc + int (of_char c div 16)) + int (of_char c mod 16)"
    using Cons.prems by simp
  from Cons.IH [OF this] hi lo show ?case by simp
qed

lemma py_int16_hexlify: "r \<noteq> [] \<Longrightarrow> \<exists>n. py_int16 (hexlify r) = Inr n \<and> 0 \<le> n"
proof -
  assume "r \<noteq> []"
  then have "hexlify r \<noteq> []" by (cases r) simp_all
  moreover obtain n where "hex_digits_value 0 (hexlify r) = Inr n" "0 \<le> n"
    using hex_digits_value_hexlify [of 0 r] by auto
  ultimately show ?thesis by (simp add: py_int16_def)
qed

lemma is_digit_char_of:
  assumes "0 \<le> d" "d < 10"
  shows "is_digit (char_of (48 + d :: int))"
proof -
  have "char_of (48 + d) = char_of (int (nat (48 + d)))"
    using assms by simp
  also have "\<dots> = char_of (nat (48 + d))"
    by (rule char_of_nat)
  finally have "(of_char (char_of (48 + d)) :: nat) = nat (48 + d) mod 256"
    by simp
  moreover have "nat (48 + d) mod 256 = nat (48 + d)" "48 \<le> nat (48 + d)" "nat (48 + d) \<le> 57"
    using assms by auto
  ultimately show ?thesis
    by (simp add: is_digit_def)
qed

lemma dec_digits_digits: "0 \<le> n \<Longrightarrow> list_all is_digit (dec_digits n)"
proof (induction n rule: dec_digits.induct)
  case (1 n)
  show ?case
  proof (cases "n < 10")
    case True
    with 1(2) have "is_digit (char_of (48 + n))"
      by (simp add: is_digit_char_of)
    with True show ?thesis by (simp add: dec_digits.simps [of n])
  next
    case False
    have "0 \<le> n mod 10" "n mod 10 < 10" by simp_all
    then have "is_digit (char_of (48 + n mod 10))"
      by (rule is_digit_char_of)
    moreover have "0 \<le> n div 10" using 1(2) by simp
    ultimately show ?thesis using False 1(1) by (simp add: dec_digits.simps [of n])
  qed
qed

lemma digit_str_shape:
  assumes "list_all is_digit s"
  shows "\<exists>t. (if int (length s) < 16
              then (Inr (replicate (nat (16 - int (length s))) (CHR ''0'') @ s), st)
              else if int (length s) > 16 then (Inr (py_slice_to s 16), st)
              else (Inr s, st)) = (Inr t :: error + string, st) \<and>
             length t = 16 \<and> list_all is_digit t"
proof -
  have zero: "is_digit (CHR ''0'')" by (simp add: is_digit_def)
  consider "length s < 16" | "length s > 16" | "length s = 16" by linarith
  then show ?thesis
  proof cases
    case 1
    then show ?thesis using assms zero by (simp add: list_all_iff)
  next
    case 2
    have "set (take 16 s) \<subseteq> set s" by (rule set_take_subset)
    with 2 assms show ?thesis by (auto simp: py_slice_to_def list_all_iff)
  next
    case 3
    then show ?thesis using assms by simp
  qed
qed

lemma get_rand_digit_str_16:
  assumes ready: "m_is_ready E m" and rand: "m_random E m 7 = Inr r" and ne: "r \<noteq> []"
  shows "\<exists>s. get_rand_digit_str E 16 (HsmConfig (Some m)) = (Inr s, HsmConfig (Some m)) \<and>
             length s = 16 \<and> list_all is_digit s"
proof -
  obtain n where n: "py_int16 (hexlify r) = Inr n" and pos: "0 \<le> n"
    using py_int16_hexlify [OF ne] by blast
  have fmt: "py_format_d n = dec_digits n"
    using pos by (simp add: py_format_d_def)
  have "get_rand_digit_str E 16 (HsmConfig (Some m)) =
          (if int (length (dec_digits n)) < 16
           then (Inr (replicate (nat (16 - int (length (dec_digits n)))) (CHR ''0'') @ dec_digits n),
                 HsmConfig (Some m))
           else if int (length (dec_digits n)) > 16
           then (Inr (py_slice_to (dec_digits n) 16), HsmConfig (Some m))
           else (Inr (dec_digits n), HsmConfig (Some m)))"
    using ready rand n by (simp add: get_rand_digit_str_def clen_16 geturandom_ready fmt Let_def)
  with digit_str_shape [OF dec_digits_digits [OF pos], of "HsmConfig (Some m)"] show ?thesis
    by simp
qed

lemma hex_digits_value_bytes: "hex_digits_value acc (hexlify r) = Inr (bytes_value acc r)"
proof (induction r arbitrary: acc)
  case Nil
  show ?case by simp
next
  case (Cons c cs)
  have hi: "hex_value (hex_digit (of_char c div 16)) = Some (of_char c div 16)"
    by (rule hex_value_hex_digit) (simp add: less_mult_imp_div_less)
  have lo: "hex_value (hex_digit (of_char c mod 16)) = Some (of_char c mod 16)"
    by (rule hex_value_hex_digit) simp
  have eq: "16 * (16 * acc + int (of_char c div 16)) + int (of_char c mod 16) =
          256 * acc + int (of_char c)"
    by (simp add: zdiv_int zmod_int)
  have "hex_digits_value acc (hexlify (c # cs)) =
          hex_digits_value (16 * (16 * acc + int (of_char c div 16)) + int (of_char c mod 16))
            (hexlify cs)"
    using hi lo by simp
  also have "\<dots> = hex_digits_value (256 * acc + int (of_char c)) (hexlify cs)"
    by (simp only: eq)
  also have "\<dots> = Inr (bytes_value (256 * acc + int (of_char c)) cs)"
    by (rule Cons.IH)
  finally show ?case by simp
qed

lemma bytes_value_nonneg: "0 \<le> acc \<Longrightarrow> 0 \<le> bytes_value acc r"
  by (induction r arbitrary: acc) simp_all

lemma py_int16_bytes: "r \<noteq> [] \<Longrightarrow> py_int16 (hexlify r) = Inr (bytes_value 0 r)"
proof -
  assume "r \<noteq> []"
  then have "hexlify r \<noteq> []" by (cases r) simp_all
  then show ?thesis by (simp add: py_int16_def hex_digits_value_bytes)
qed

lemma get_rand_digit_str_error:
  assumes "m_is_ready E m" "digit_str_clen len = Inr k" "len \<noteq> 1" "m_random E m k = Inl e"
  shows "get_rand_digit_str E len (HsmConfig (Some m)) = (Inl e, HsmConfig (Some m))"
  using assms by (simp add: get_rand_digit_str_def geturandom_ready)

lemma get_rand_digit_str_no_bytes:
  assumes "m_is_ready E m" "digit_str_clen len = Inr k" "len \<noteq> 1" "m_random E m k = Inr []"
  shows "get_rand_digit_str E len (HsmConfig (Some m)) = (Inl ValueError, HsmConfig (Some m))"
  using assms by (simp add: get_rand_digit_str_def geturandom_ready py_int16_def)

lemma get_rand_digit_str_exact:
  assumes "m_is_ready E m" "digit_str_clen len = Inr k" "len \<noteq> 1"
    and "m_random E m k = Inr r" "r \<noteq> []"
  shows "get_rand_digit_str E len (HsmConfig (Some m)) =
           (Inr (let s = dec_digits (bytes_value 0 r) in
                 if int (length s) < len
                   then replicate (nat (len - int (length s))) (CHR ''0'') @ s
                 else if len < int (length s) then py_slice_to s len
                 else s),
            HsmConfig (Some m))"
proof -
  have "0 \<le> bytes_value 0 r"
    by (rule bytes_value_nonneg) simp
  then have "py_format_d (bytes_value 0 r) = dec_digits (bytes_value 0 r)"
    by (simp add: py_format_d_def)
  with assms show ?thesis
    by (simp add: get_rand_digit_str_def geturandom_ready py_int16_bytes Let_def)
qed

text \<open>
  C8, as stated, fails in its last part: for length 3 the code requests
  \<open>int(3 / 2.4 + 0.5) = 1\<close> byte, while \<open>ceil(3 / 2.4) = 2\<close>. On the stand-in module,
  whose random bytes are all \<open>0xff\<close>, the result is made from the one byte 255.
\<close>

theorem get_rand_digit_str_clen_counterexample:
  "digit_str_clen 3 = Inr 1 \<and> \<lceil>(3 :: rat) / (12 / 5)\<rceil> = 2 \<and>
   get_rand_digit_str toy_hsm 3 (HsmConfig (Some True)) = (Inr ''255'', HsmConfig (Some True))"
  by code_simp

text \<open>
  C8, amended. On a ready module, for a length other than 1, \<open>get_rand_digit_str\<close>
  requests exactly \<open>k = int(length / 2.4 + 0.5)\<close> random bytes: an exception of
  \<open>random(k)\<close> is the exception of the call, no bytes give a ValueError, and the bytes
  \<open>r\<close> that \<open>random(k)\<close> returns give the decimal digits of the integer that \<open>r\<close> denotes,
  padded with zeros on the left or cut to \<open>length\<close> characters. For length 16 the number
  of bytes is 7 and the result is a string of exactly 16 decimal digits, whatever the
  bytes are. \<open>get_rand_digit_str(1)\<close> raises ValueError.
\<close>

theorem get_rand_digit_str_contract:
  assumes ready: "m_is_ready E m"
    and clen: "digit_str_clen len = Inr k"
    and len: "len \<noteq> 1"
  shows "(m_random E m k = Inl e \<longrightarrow>
            get_rand_digit_str E len (HsmConfig (Some m)) = (Inl e, HsmConfig (Some m))) \<and>
         (m_random E m k = Inr [] \<longrightarrow>
            get_rand_digit_str E len (HsmConfig (Some m)) = (Inl ValueError, HsmConfig (Some m))) \<and>
         (m_random E m k = Inr r \<and> r \<noteq> [] \<longrightarrow>
            get_rand_digit_str E len (HsmConfig (Some m)) =
              (Inr (let s = dec_digits (bytes_value 0 r) in
                    if int (length s) < len
                      then replicate (nat (len - int (length s))) (CHR ''0'') @ s
                    else if len < int (length s) then py_slice_to s len
                    else s),
               HsmConfig (Some m))) \<and>
         digit_str_clen 16 = Inr 7 \<and>
         (m_random E m 7 = Inr r' \<and> r' \<noteq> [] \<longrightarrow>
            (\<exists>s. get_rand_digit_str E 16 (HsmConfig (Some m)) = (Inr s, HsmConfig (Some m)) \<and>
                 length s = 16 \<and> list_all is_digit s)) \<and>
         get_rand_digit_str E 1 st = (Inl ValueError, st)"
proof -
  have one: "get_rand_digit_str E 1 st = (Inl ValueError, st)"
    by (simp add: get_rand_digit_str_def)
  have sixteen: "m_random E m 7 = Inr r' \<and> r' \<noteq> [] \<longrightarrow>
            (\<exists>s. get_rand_digit_str E 16 (HsmConfig (Some m)) = (Inr s, HsmConfig (Some m)) \<and>
                 length s = 16 \<and> list_all is_digit s)"
    using get_rand_digit_str_16 [OF ready] by blast
  from get_rand_digit_str_error [OF ready clen len]
    get_rand_digit_str_no_bytes [OF ready clen len]
    get_rand_digit_str_exact [OF ready clen len]
    clen_16 sixteen one
  show ?thesis by blast
qed

theorem get_rand_digit_str_contract_witness:
  "m_is_ready toy_hsm True \<and> digit_str_clen 3 = Inr 1 \<and> (3 :: int) \<noteq> 1 \<and>
   m_random toy_hsm True 1 = Inr [CHR 0xff] \<and>
   get_rand_digit_str toy_hsm 3 (HsmConfig (Some True)) = (Inr ''255'', HsmConfig (Some True))"
proof -
  have ready: "m_is_ready toy_hsm True"
    and rand: "m_random toy_hsm True 1 = Inr [CHR 0xff]"
    by (simp_all add: toy_hsm_def)
  have len: "(3 :: int) \<noteq> 1"
    by simp
  have digits: "(let s = dec_digits (bytes_value 0 [CHR 0xff]) in
                 if int (length s) < 3
                   then replicate (nat (3 - int (length s))) (CHR ''0'') @ s
                 else if 3 < int (length s) then py_slice_to s 3
                 else s) = ''255''"
    by code_simp
  have "get_rand_digit_str toy_hsm 3 (HsmConfig (Some True)) =
          (Inr (let s = dec_digits (bytes_value 0 [CHR 0xff]) in
                if int (length s) < 3
                  then replicate (nat (3 - int (length s))) (CHR ''0'') @ s
                else if 3 < int (length s) then py_slice_to s 3
                else s),
           HsmConfig (Some True))"
    using get_rand_digit_str_contract [where r = "[CHR 0xff]", OF ready clen_3 len] rand
    by blast
  with digits ready rand clen_3 len show ?thesis
    by (simp only:) simp
qed

section \<open>Properties of the SecretObj key cache\<close>

lemma decrypt_ready:
  "m_is_ready E m \<Longrightarrow>
   decrypt E d i n (HsmConfig (Some m)) = (m_decrypt E m d i n, HsmConfig (Some m))"
  by (simp add: decrypt_def)

lemma setupKey_fresh:
  assumes "m_is_ready E m" "m_decrypt E m v i 0 = Inr akey" "unhexlify akey = Inr k"
  shows "SecretObj_setupKey E (SecretObj_init v i p) \<lparr>w_store = HsmConfig (Some m), w_heap = hp\<rparr> =
           (Inr (), (SecretObj_init v i p)\<lparr>so_bkey := BkeyRef (Suc (length hp))\<rparr>,
            \<lparr>w_store = HsmConfig (Some m),
             w_heap = hp @ [replicate (length akey) (CHR 0x00), k]\<rparr>)"
  using assms
  by (simp add: SecretObj_setupKey_def SecretObj_init_def decrypt_ready zerome_def
      nth_append list_update_append)

lemma setupKey_cached:
  "so_bkey self = BkeyRef a \<Longrightarrow> SecretObj_setupKey E self w = (Inr (), self, w)"
  by (simp add: SecretObj_setupKey_def)

text \<open>
  C10. A SecretObj constructed without a \<open>preserve\<close> argument has \<open>preserve = True\<close>.
  On a ready module that decrypts the stored value to the hex string of a key \<open>k\<close>:
  \<open>hmac_digest\<close> and \<open>aes_decrypt\<close> return their result and leave \<open>bkey\<close> referring to a
  buffer that still holds \<open>k\<close> (only the intermediate hex string is zeroed); a further
  \<open>hmac_digest\<close> on that object changes nothing; \<open>__del__\<close> overwrites the buffer with
  zero bytes and removes the attribute.
\<close>

theorem secret_key_stays_cached:
  assumes ready: "m_is_ready E m"
    and dec: "m_decrypt E m v i 0 = Inr akey"
    and hex: "unhexlify akey = Inr k"
    and mac: "hmac_new k d algo = Inr h"
    and new: "aes_new L k MODE_ECB [] = Inr aes"
    and ecb: "aes_obj_decrypt L aes c = Inr msg"
  shows "(let self = SecretObj_init v i None;
              w = \<lparr>w_store = HsmConfig (Some m), w_heap = hp\<rparr>;
              a = Suc (length hp);
              self' = self\<lparr>so_bkey := BkeyRef a\<rparr>;
              zeroed = replicate (length akey) (CHR 0x00);
              w' = \<lparr>w_store = HsmConfig (Some m), w_heap = hp @ [zeroed, k]\<rparr>
          in so_preserve self = True \<and>
             SecretObj_hmac_digest E hmac_new pv self d algo w = (Inr h, self', w') \<and>
             SecretObj_aes_decrypt E L self c w = (Inr msg, self', w') \<and>
             w_heap w' ! a = k \<and>
             SecretObj_hmac_digest E hmac_new pv self' d algo w' = (Inr h, self', w') \<and>
             SecretObj_del self' w' =
               (self'\<lparr>so_bkey := BkeyDeleted\<rparr>,
                w'\<lparr>w_heap := hp @ [zeroed, replicate (length k) (CHR 0x00)]\<rparr>))"
proof -
  define self where "self = SecretObj_init v i None"
  define a where "a = Suc (length hp)"
  define self' where "self' = self\<lparr>so_bkey := BkeyRef a\<rparr>"
  define zeroed where "zeroed = replicate (length akey) (CHR 0x00)"
  define w :: "'a world" where "w = \<lparr>w_store = HsmConfig (Some m), w_heap = hp\<rparr>"
  define w' :: "'a world" where "w' = \<lparr>w_store = HsmConfig (Some m), w_heap = hp @ [zeroed, k]\<rparr>"
  have pres: "so_preserve self = True" "so_preserve self' = True"
    by (simp_all add: self_def self'_def SecretObj_init_def)
  have bkey': "so_bkey self' = BkeyRef a"
    by (simp add: self'_def)
  have fresh: "SecretObj_setupKey E self w = (Inr (), self', w')"
    unfolding self_def self'_def w_def w'_def a_def zeroed_def
    using ready dec hex by (rule setupKey_fresh)
  have cell: "w_heap w' ! a = k"
    by (simp add: w'_def a_def nth_append)
  have keep: "SecretObj_clearKey self' True w' = (Inr (), self', w')"
    by (simp add: SecretObj_clearKey_def)
  have h1: "SecretObj_hmac_digest E hmac_new pv self d algo w = (Inr h, self', w')"
    using fresh bkey' cell mac keep pres by (simp add: SecretObj_hmac_digest_def py_str_def)
  have h2: "SecretObj_aes_decrypt E L self c w = (Inr msg, self', w')"
    using fresh bkey' cell new ecb keep pres by (simp add: SecretObj_aes_decrypt_def)
  have cached: "SecretObj_setupKey E self' w' = (Inr (), self', w')"
    using bkey' by (rule setupKey_cached)
  have h3: "SecretObj_hmac_digest E hmac_new pv self' d algo w' = (Inr h, self', w')"
    using cached bkey' cell mac keep pres
    by (simp add: SecretObj_hmac_digest_def py_str_def)
  have h4: "SecretObj_del self' w' =
              (self'\<lparr>so_bkey := BkeyDeleted\<rparr>,
               w'\<lparr>w_heap := hp @ [zeroed, replicate (length k) (CHR 0x00)]\<rparr>)"
    using bkey'
    by (simp add: SecretObj_del_def SecretObj_clearKey_def zerome_def w'_def a_def
        nth_append list_update_append)
  from pres(1) h1 h2 cell h3 h4 show ?thesis
    unfolding Let_def self_def [symmetric] a_def [symmetric] self'_def [symmetric]
      zeroed_def [symmetric] w_def [symmetric] w'_def [symmetric]
    by blast
qed

theorem secret_key_stays_cached_witness:
  "m_is_ready toy_hsm True \<and>
   m_decrypt toy_hsm True (hexlify key16 @ iv16) iv16 0 = Inr (hexlify key16) \<and>
   unhexlify (hexlify key16) = Inr key16 \<and>
   toy_hmac key16 ''data'' () = Inr (key16 @ ''data'') \<and>
   aes_new null_aes key16 MODE_ECB [] = Inr (key16, MODE_ECB, []) \<and>
   aes_obj_decrypt null_aes (key16, MODE_ECB, []) iv16 = Inr iv16 \<and>
   (let self = SecretObj_init (hexlify key16 @ iv16) iv16 None;
        w = \<lparr>w_store = HsmConfig (Some True), w_heap = []\<rparr>;
        a = Suc (length ([] :: string list));
        self' = self\<lparr>so_bkey := BkeyRef a\<rparr>;
        zeroed = replicate (length (hexlify key16)) (CHR 0x00);
        w' = \<lparr>w_store = HsmConfig (Some True), w_heap = [] @ [zeroed, key16]\<rparr>
    in so_preserve self = True \<and>
       SecretObj_hmac_digest toy_hsm toy_hmac True self ''data'' () w =
         (Inr (key16 @ ''data''), self', w') \<and>
       SecretObj_aes_decrypt toy_hsm null_aes self iv16 w = (Inr iv16, self', w') \<and>
       w_heap w' ! a = key16 \<and>
       SecretObj_hmac_digest toy_hsm toy_hmac True self' ''data'' () w' =
         (Inr (key16 @ ''data''), self', w') \<and>
       SecretObj_del self' w' =
         (self'\<lparr>so_bkey := BkeyDeleted\<rparr>,
          w'\<lparr>w_heap := [] @ [zeroed, replicate (length key16) (CHR 0x00)]\<rparr>))"
proof -
  have ready: "m_is_ready toy_hsm True"
    by (simp add: toy_hsm_def)
  have dec: "m_decrypt toy_hsm True (hexlify key16 @ iv16) iv16 0 = Inr (hexlify key16)"
    by (simp add: toy_hsm_def)
  have hex: "unhexlify (hexlify key16) = Inr key16"
    by (rule unhexlify_hexlify)
  have mac: "toy_hmac key16 ''data'' () = Inr (key16 @ ''data'')"
    by (simp add: toy_hmac_def)
  have new: "aes_new null_aes key16 MODE_ECB [] = Inr (key16, MODE_ECB, [])"
    by (simp add: null_aes_def key16_def)
  have ecb: "aes_obj_decrypt null_aes (key16, MODE_ECB, []) iv16 = Inr iv16"
    by (simp add: null_aes_def iv16_def)
  from secret_key_stays_cached [where hmac_new = toy_hmac and hp = "[]" and pv = True,
      OF ready dec hex mac new ecb]
    ready dec hex mac new ecb
  show ?thesis by blast
qed

section \<open>Properties of the random functions\<close>

text \<open>
  \<open>choice\<close> relies on \<open>randint(0, size)\<close> staying below \<open>size\<close>: with the 12 random
  bytes \<open>ff \<dots> ff\<close> it raises IndexError.
\<close>

lemma choice_index_error:
  "choice (fixed_random_hsm (replicate 12 (CHR 0xff))) ''abc'' (HsmConfig (Some True)) =
     (Inl IndexError, HsmConfig (Some True))"
  by code_simp

text \<open>
  C3, evaluated where it fails. With the 12 random bytes \<open>80 00 \<dots> 00\<close>, \<open>random()\<close> is
  0.5 and \<open>randint(-1, 0)\<close> is \<open>int(-1 + 0.5 * 1) = int(-0.5) = 0\<close>, the upper bound:
  \<open>int\<close> truncates towards zero. With the 12 random bytes \<open>ff \<dots> ff\<close>, the conversion
  of \<open>2^96 - 1\<close> to a float rounds up to \<open>2^96\<close>, \<open>random()\<close> is 1.0,
  \<open>uniform(0.0, 1.0)\<close> returns 1.0 and \<open>randint(0, 10)\<close> returns 10, the upper bounds.
\<close>

theorem randint_uniform_return_upper_bound:
  "randint (fixed_random_hsm (CHR 0x80 # replicate 11 (CHR 0x00))) (PyInt (- 1)) (Some (PyInt 0))
     (HsmConfig (Some True)) = (Inr 0, HsmConfig (Some True)) \<and>
   uniform (fixed_random_hsm (replicate 12 (CHR 0xff))) (PyFloat 0) (Some (PyFloat 1))
     (HsmConfig (Some True)) = (Inr (PyFloat 1), HsmConfig (Some True)) \<and>
   randint (fixed_random_hsm (replicate 12 (CHR 0xff))) (PyInt 0) (Some (PyInt 10))
     (HsmConfig (Some True)) = (Inr 10, HsmConfig (Some True))"
  by code_simp

section \<open>Properties of the Sign class\<close>

text \<open>
  C1, evaluated where it fails. When \<open>pkcs1_15\<close> is available (\<open>SIGN_WITH_RSA\<close> is
  false), \<open>Sign.verify\<close> returns false for every key pair, message and signature,
  whatever the library does: also for the signature that \<open>Sign.sign\<close> has just made.
\<close>

theorem verify_pkcs1_15_always_false:
  "Sign_verify R False self s signature = False"
  by (simp add: Sign_verify_def Let_def split: sum.splits)

text \<open>
  In that branch \<open>Sign.sign\<close> returns the first byte of the signature only, which
  \<open>long\<close> in \<open>Sign.verify\<close> then rejects unless it is a digit.
\<close>

lemma pkcs1_15_sign_first_byte:
  "Sign_sign toy_rsa False toy_keys (Bytes ''msg'') = Inr ''s'' \<and>
   py_long ''s'' = Inl ValueError \<and>
   Sign_verify toy_rsa False toy_keys (Bytes ''msg'') ''s'' = False"
  by (simp add: Sign_sign_def Sign_verify_def toy_rsa_def toy_keys_def encode_message_def
      py_first_def py_long_def is_space_def is_digit_def)

text \<open>
  The raw RSA branch, for comparison: there \<open>verify\<close> returns what the library's
  \<open>verify\<close> returns on the number that \<open>sign\<close> printed.
\<close>

lemma of_char_digit:
  assumes "0 \<le> d" "d < 10"
  shows "(of_char (char_of (48 + d :: int)) :: int) = 48 + d"
proof -
  have "(of_char (char_of (48 + d)) :: int) = (48 + d) mod 256"
    by (rule of_char_of)
  also have "\<dots> = 48 + d"
    using assms by simp
  finally show ?thesis .
qed

lemma dec_value_rev_dec_digits: "0 \<le> n \<Longrightarrow> dec_value_rev (rev (dec_digits n)) = Inr n"
proof (induction n rule: dec_digits.induct)
  case (1 n)
  show ?case
  proof (cases "n < 10")
    case True
    with 1(2) show ?thesis
      by (simp add: dec_digits.simps [of n] is_digit_char_of of_char_digit)
  next
    case False
    have m: "0 \<le> n mod 10" "n mod 10 < 10" by simp_all
    have d: "0 \<le> n div 10" using 1(2) by simp
    have "dec_value_rev (rev (dec_digits (n div 10))) = Inr (n div 10)"
      using False d by (rule 1(1))
    with False m show ?thesis
      by (simp add: dec_digits.simps [of n] is_digit_char_of of_char_digit)
  qed
qed

lemma py_long_digits:
  assumes "ds \<noteq> []" "list_all is_digit ds"
  shows "py_long ds = dec_value_rev (rev ds)"
proof -
  obtain c cs where split: "ds = c # cs"
    using assms(1) by (cases ds) auto
  have dig: "is_digit c"
    using assms(2) split by simp
  then have c: "\<not> is_space c" "c \<noteq> CHR ''-''" "c \<noteq> CHR ''+''"
    by (auto simp: is_digit_def is_space_def)
  have all: "\<forall>x \<in> set ds. is_digit x"
    using assms(2) by (simp add: list_all_iff)
  have s1: "dropWhile is_space ds = ds"
    using c split by simp
  have s2: "(case ds of [] \<Rightarrow> [] | c # cs \<Rightarrow> if c = CHR ''-'' \<or> c = CHR ''+'' then cs else ds) = ds"
    using c split by simp
  have neg: "(case ds of [] \<Rightarrow> False | c # cs \<Rightarrow> c = CHR ''-'') = False"
    using c split by simp
  have tw: "takeWhile is_digit ds = ds" and dw: "dropWhile is_digit ds = []"
    using all by simp_all
  show ?thesis
    unfolding py_long_def Let_def s1 s2 neg tw dw
    using assms(1) by (simp split: sum.splits)
qed

lemma py_long_format_d: "0 \<le> n \<Longrightarrow> py_long (py_format_d n) = Inr n"
proof -
  assume pos: "0 \<le> n"
  have ne: "dec_digits n \<noteq> []"
    by (simp add: dec_digits.simps [of n])
  have "py_long (dec_digits n) = dec_value_rev (rev (dec_digits n))"
    using ne dec_digits_digits [OF pos] by (rule py_long_digits)
  with pos show ?thesis
    by (simp add: py_format_d_def dec_value_rev_dec_digits)
qed

text \<open>White space around the number and a trailing \<open>L\<close> are accepted.\<close>

lemma py_long_examples:
  "py_long '' 42 '' = Inr 42 \<and> py_long ''42L'' = Inr 42 \<and> py_long ''-7'' = Inr (- 7) \<and>
   py_long [] = Inl ValueError \<and> py_long ''4 2'' = Inl ValueError"
  by code_simp

lemma raw_rsa_sign_verify:
  assumes "import_key R (sg_private self) = Inr kpriv"
    and "import_key R (sg_public self) = Inr kpub"
    and "rsa_sign R kpriv (sha256_digest R (encode_message R s)) = Inr sig"
    and "0 \<le> sig"
    and "rsa_verify R kpub (sha256_digest R (encode_message R s)) sig = Inr v"
  shows "Sign_sign R True self s = Inr (py_format_d sig) \<and>
         Sign_verify R True self s (py_format_d sig) = v"
  using assms by (simp add: Sign_sign_def Sign_verify_def Let_def py_long_format_d)

end
